theory Spec2Isabelle
  imports Main "HOL-Library.Word"
begin

unbundle bit_operations_syntax

section \<open>Buffers, errors and the trace of collaborator calls\<close>

text \<open>
  Source of the codec: the class \<open>Bip38\<close> (\<^verbatim>\<open>src/unnamed/part_000\<close>). A Node
  \<open>Buffer\<close> is a list of bytes. A JavaScript string is represented by its UTF-8 bytes
  (\<open>string\<close> is a list of 8-bit characters), so \<open>Buffer.from(s, "utf8")\<close> is a
  change of element type.
\<close>

type_synonym byte = "8 word"
type_synonym buffer = "byte list"

text \<open>An argument the source passes either as a string or as a \<open>Buffer\<close>.\<close>

datatype binary_like = Str string | Buf buffer

text \<open>The \<open>{N, r, p}\<close> object handed to \<open>scryptSync\<close>.\<close>

record scrypt_params =
  param_N :: nat
  param_r :: nat
  param_p :: nat

text \<open>\<open>IDecryptResult\<close>.\<close>

record IDecryptResult =
  privateKey :: buffer
  compressed :: bool

text \<open>
  Everything the codec can throw. The five named errors carry the expected and the actual
  value as in the source; \<open>AssertionError\<close> is what \<open>assert.strictEqual\<close> and
  \<open>assert.deepEqual\<close> raise; \<open>RangeError\<close> is an out-of-range \<open>readUInt8\<close> or
  \<open>writeUInt8\<close>; \<open>JsTypeError\<close> is a property access on \<open>undefined\<close>;
  \<open>CollaboratorError\<close> wraps whatever an injected collaborator throws.
\<close>

datatype error =
    PrivateKeyLengthError nat nat
  | Bip38LengthError nat nat
  | Bip38PrefixError byte byte
  | Bip38TypeError byte byte
  | Bip38CompressionError byte byte
  | AssertionError
  | RangeError
  | JsTypeError
  | CollaboratorError string

text \<open>One entry per call into an injected collaborator, with the arguments passed.\<close>

datatype call =
    ScryptSync binary_like buffer nat scrypt_params
  | Xor buffer buffer
  | Cipheriv string buffer buffer buffer
  | Decipheriv string buffer buffer buffer
  | PrivateKeyTweakMul buffer buffer
  | FromPrivateKeyWithAlgorithm buffer bool
  | Hash256 binary_like
  | Hash160 binary_like
  | EncodeCheck buffer
  | DecodeCheck string

text \<open>
  The collaborators the constructor receives (\<open>libraries\<close>, \<open>hashAlgorithms\<close>,
  \<open>base58\<close>) and the imported \<open>Keys\<close>; none of them is part of the sources at hand, so
  each is a parameter. A collaborator either returns a value or throws (\<open>Inl\<close> with its
  message).
  \<^item> \<open>aes_cipher alg key iv data\<close> stands for \<open>createCipheriv(alg, key, iv)\<close>,
    \<open>setAutoPadding(false)\<close>, writing \<open>data\<close>, \<open>end\<close> and \<open>read()\<close>;
    \<open>aes_decipher\<close> likewise for \<open>createDecipheriv\<close>.
  \<^item> \<open>fromPrivateKeyWithAlgorithm key compressed\<close> is the \<open>publicKey\<close> field (a hex
    string) of the key pair \<open>Keys.fromPrivateKeyWithAlgorithm\<close> returns.
  \<^item> \<open>decodeCheck\<close> may return \<open>undefined\<close> (\<open>None\<close>): \<open>verify\<close> tests for it.
  \<^item> \<open>uninitialized\<close> gives the bytes found in memory that \<open>Buffer.allocUnsafe\<close>
    hands out.
\<close>

record bip38_env =
  scryptSync :: "binary_like \<Rightarrow> buffer \<Rightarrow> nat \<Rightarrow> scrypt_params \<Rightarrow> string + buffer"
  xor_buffers :: "buffer \<Rightarrow> buffer \<Rightarrow> string + buffer"
  aes_cipher :: "string \<Rightarrow> buffer \<Rightarrow> buffer \<Rightarrow> buffer \<Rightarrow> string + buffer"
  aes_decipher :: "string \<Rightarrow> buffer \<Rightarrow> buffer \<Rightarrow> buffer \<Rightarrow> string + buffer"
  privateKeyTweakMul :: "buffer \<Rightarrow> buffer \<Rightarrow> string + buffer"
  fromPrivateKeyWithAlgorithm :: "buffer \<Rightarrow> bool \<Rightarrow> string + string"
  hash256 :: "binary_like \<Rightarrow> string + buffer"
  hash160 :: "binary_like \<Rightarrow> string + buffer"
  encodeCheck :: "buffer \<Rightarrow> string + string"
  decodeCheck :: "string \<Rightarrow> string + buffer option"
  uninitialized :: "nat \<Rightarrow> byte"

text \<open>
  A computation yields its outcome (an error thrown or a value returned) together with the
  collaborator calls it made, in order.
\<close>

type_synonym 'a traced = "(error + 'a) \<times> call list"

definition returns :: "'a \<Rightarrow> 'a traced" where
  "returns x = (Inr x, [])"

definition throws :: "error \<Rightarrow> 'a traced" where
  "throws e = (Inl e, [])"

text \<open>Sequencing: an error ends the computation, with the calls made so far.\<close>

definition andThen :: "'a traced \<Rightarrow> ('a \<Rightarrow> 'b traced) \<Rightarrow> 'b traced" where
  "andThen m f =
     (case m of
        (Inl e, t) \<Rightarrow> (Inl e, t)
      | (Inr x, t) \<Rightarrow> (case f x of (res, t') \<Rightarrow> (res, t @ t')))"

text \<open>A call into a collaborator: it is recorded whether it returns or throws.\<close>

definition invoke :: "call \<Rightarrow> string + 'a \<Rightarrow> 'a traced" where
  "invoke c res =
     (case res of
        Inl msg \<Rightarrow> (Inl (CollaboratorError msg), [c])
      | Inr x \<Rightarrow> (Inr x, [c]))"

subsection \<open>Buffer primitives of the runtime\<close>

text \<open>\<open>buf.slice(start, end)\<close> for non-negative indices: \<open>end\<close> is clamped to the length.\<close>

definition slice :: "buffer \<Rightarrow> nat \<Rightarrow> nat \<Rightarrow> buffer" where
  "slice buf start end = take (end - start) (drop start buf)"

text \<open>\<open>buf.readUInt8(offset)\<close> throws outside the buffer.\<close>

definition readUInt8 :: "buffer \<Rightarrow> nat \<Rightarrow> byte traced" where
  "readUInt8 buf offset = (if offset < length buf then returns (buf ! offset) else throws RangeError)"

text \<open>\<open>buf.writeUInt8(value, offset)\<close>; the buffer after the write is returned.\<close>

definition writeUInt8 :: "buffer \<Rightarrow> byte \<Rightarrow> nat \<Rightarrow> buffer traced" where
  "writeUInt8 buf v offset =
     (if offset < length buf then returns (buf[offset := v]) else throws RangeError)"

text \<open>
  \<open>source.copy(target, targetStart)\<close>: as many bytes as fit are copied; the target keeps
  its length. The target after the copy is returned.
\<close>

definition copy :: "buffer \<Rightarrow> buffer \<Rightarrow> nat \<Rightarrow> buffer" where
  "copy source target targetStart =
     (let n = min (length source) (length target - targetStart)
      in take targetStart target @ take n source @ drop (targetStart + n) target)"

definition alloc :: "nat \<Rightarrow> buffer" where
  "alloc n = replicate n 0"

definition allocUnsafe :: "bip38_env \<Rightarrow> nat \<Rightarrow> buffer" where
  "allocUnsafe env n = map (uninitialized env) [0..<n]"

text \<open>\<open>Buffer.concat(list, totalLength)\<close>: truncated or zero-filled to \<open>totalLength\<close>.\<close>

definition concat_total :: "buffer list \<Rightarrow> nat \<Rightarrow> buffer" where
  "concat_total bufs totalLength =
     (let all = concat bufs in take totalLength all @ replicate (totalLength - length all) 0)"

definition buffer_from_utf8 :: "string \<Rightarrow> buffer" where
  "buffer_from_utf8 s = map (\<lambda>c. of_nat (of_char c)) s"

text \<open>\<open>Buffer.from(s, "hex")\<close>: pairs of hex digits, stopping at the first pair that is none.\<close>

definition hex_digit :: "char \<Rightarrow> nat option" where
  "hex_digit c =
     (let n = (of_char c :: nat)
      in if 48 \<le> n \<and> n \<le> 57 then Some (n - 48)
         else if 97 \<le> n \<and> n \<le> 102 then Some (n - 87)
         else if 65 \<le> n \<and> n \<le> 70 then Some (n - 55)
         else None)"

fun buffer_from_hex :: "string \<Rightarrow> buffer" where
  "buffer_from_hex (a # b # cs) =
     (case (hex_digit a, hex_digit b) of
        (Some x, Some y) \<Rightarrow> of_nat (16 * x + y) # buffer_from_hex cs
      | _ \<Rightarrow> [])"
| "buffer_from_hex _ = []"

text \<open>
  JavaScript's \<open>&\<close> on a byte read from a buffer and a 32-bit mask: both operands are taken
  as 32-bit integers.
\<close>

definition js_and :: "byte \<Rightarrow> 32 word \<Rightarrow> 32 word" where
  "js_and x m = ucast x AND m"

section \<open>The BIP38 codec\<close>

definition NULL :: buffer where
  "NULL = alloc 0"

definition SCRYPT_PARAMS :: scrypt_params where
  "SCRYPT_PARAMS = \<lparr>param_N = 16384, param_r = 8, param_p = 8\<rparr>"

text \<open>The literal \<open>{N: 1024, r: 1, p: 1}\<close> of \<open>decryptECMult\<close>.\<close>

definition LIGHT_PARAMS :: scrypt_params where
  "LIGHT_PARAMS = \<lparr>param_N = 1024, param_r = 1, param_p = 1\<rparr>"

definition getPublicKey :: "bip38_env \<Rightarrow> buffer \<Rightarrow> bool \<Rightarrow> buffer traced" where
  "getPublicKey env buffer compressed =
     andThen (invoke (FromPrivateKeyWithAlgorithm buffer compressed)
                (fromPrivateKeyWithAlgorithm env buffer compressed))
       (\<lambda>publicKey. returns (buffer_from_hex publicKey))"
  for compressed

definition getAddressPrivate :: "bip38_env \<Rightarrow> buffer \<Rightarrow> bool \<Rightarrow> string traced" where
  "getAddressPrivate env privateKey compressed =
     andThen (getPublicKey env privateKey compressed) (\<lambda>publicKey.
     andThen (invoke (Hash160 (Buf publicKey)) (hash160 env (Buf publicKey))) (\<lambda>buffer.
     andThen (writeUInt8 (alloc 21) 0x00 0) (\<lambda>payload.
     invoke (EncodeCheck (copy buffer payload 1)) (encodeCheck env (copy buffer payload 1)))))"
  for privateKey compressed

definition encryptRaw :: "bip38_env \<Rightarrow> buffer \<Rightarrow> bool \<Rightarrow> string \<Rightarrow> buffer traced" where
  "encryptRaw env buffer compressed passphrase =
     (if length buffer \<noteq> 32 then throws (PrivateKeyLengthError 32 (length buffer))
      else
        andThen (getAddressPrivate env buffer compressed) (\<lambda>address.
        let secret = buffer_from_utf8 passphrase in
        andThen (invoke (Hash256 (Str address)) (hash256 env (Str address))) (\<lambda>h.
        let salt = slice h 0 4 in
        andThen (invoke (ScryptSync (Buf secret) salt 64 SCRYPT_PARAMS)
                   (scryptSync env (Buf secret) salt 64 SCRYPT_PARAMS)) (\<lambda>scryptBuf.
        let derivedHalf1 = slice scryptBuf 0 32;
            derivedHalf2 = slice scryptBuf 32 64
        in
        andThen (invoke (Xor derivedHalf1 buffer) (xor_buffers env derivedHalf1 buffer)) (\<lambda>xorBuf.
        andThen (invoke (Cipheriv ''aes-256-ecb'' derivedHalf2 NULL xorBuf)
                   (aes_cipher env ''aes-256-ecb'' derivedHalf2 NULL xorBuf)) (\<lambda>cipherText.
        andThen (writeUInt8 (allocUnsafe env (7 + 32)) 0x01 0) (\<lambda>result.
        andThen (writeUInt8 result 0x42 1) (\<lambda>result.
        andThen (writeUInt8 result (if compressed then 0xe0 else 0xc0) 2) (\<lambda>result.
        returns (copy cipherText (copy salt result 3) 7))))))))))"
  for compressed

definition encrypt :: "bip38_env \<Rightarrow> buffer \<Rightarrow> bool \<Rightarrow> string \<Rightarrow> string traced" where
  "encrypt env privateKey compressed passphrase =
     andThen (encryptRaw env privateKey compressed passphrase) (\<lambda>raw.
     invoke (EncodeCheck raw) (encodeCheck env raw))"
  for privateKey compressed

definition decryptECMult :: "bip38_env \<Rightarrow> buffer \<Rightarrow> string \<Rightarrow> IDecryptResult traced" where
  "decryptECMult env buffer0 passphrase =
     (let buffer = drop 1 buffer0 in
      andThen (readUInt8 buffer 1) (\<lambda>flag.
      let compressed = (js_and flag 0x20 \<noteq> 0);
          hasLotSeq = (js_and flag 0x04 \<noteq> 0)
      in
      if js_and flag 0x24 \<noteq> ucast flag then throws AssertionError
      else
        let addressHash = slice buffer 2 6;
            ownerEntropy = slice buffer 6 14;
            ownerSalt = (if hasLotSeq then slice ownerEntropy 0 4 else ownerEntropy);
            encryptedPart1 = slice buffer 14 22;
            encryptedPart2 = slice buffer 22 38
        in
        andThen (invoke (ScryptSync (Str passphrase) ownerSalt 32 SCRYPT_PARAMS)
                   (scryptSync env (Str passphrase) ownerSalt 32 SCRYPT_PARAMS)) (\<lambda>preFactor.
        andThen (if hasLotSeq
                 then invoke (Hash256 (Buf (preFactor @ ownerEntropy)))
                        (hash256 env (Buf (preFactor @ ownerEntropy)))
                 else returns preFactor) (\<lambda>passFactor.
        andThen (getPublicKey env passFactor True) (\<lambda>publicKey.
        andThen (invoke (ScryptSync (Buf publicKey) (addressHash @ ownerEntropy) 64 LIGHT_PARAMS)
                   (scryptSync env (Buf publicKey) (addressHash @ ownerEntropy) 64 LIGHT_PARAMS))
          (\<lambda>seedBPass.
        let derivedHalf1 = slice seedBPass 0 32;
            derivedHalf2 = slice seedBPass 32 64
        in
        andThen (invoke (Decipheriv ''aes-256-ecb'' derivedHalf2 (alloc 0) encryptedPart2)
                   (aes_decipher env ''aes-256-ecb'' derivedHalf2 (alloc 0) encryptedPart2))
          (\<lambda>decryptedPart2.
        andThen (invoke (Xor decryptedPart2 (slice derivedHalf1 16 32))
                   (xor_buffers env decryptedPart2 (slice derivedHalf1 16 32))) (\<lambda>tmp.
        let seedBPart2 = slice tmp 8 16 in
        andThen (invoke (Decipheriv ''aes-256-ecb'' derivedHalf2 (alloc 0)
                           (encryptedPart1 @ slice tmp 0 8))
                   (aes_decipher env ''aes-256-ecb'' derivedHalf2 (alloc 0)
                           (encryptedPart1 @ slice tmp 0 8))) (\<lambda>decrypted1.
        andThen (invoke (Xor decrypted1 (slice derivedHalf1 0 16))
                   (xor_buffers env decrypted1 (slice derivedHalf1 0 16))) (\<lambda>seedBPart1.
        let seedB = concat_total [seedBPart1, seedBPart2] 24 in
        andThen (invoke (Hash256 (Buf seedB)) (hash256 env (Buf seedB))) (\<lambda>hashedSeed.
        andThen (invoke (PrivateKeyTweakMul hashedSeed passFactor)
                   (privateKeyTweakMul env hashedSeed passFactor)) (\<lambda>privateKey.
        returns \<lparr>privateKey = privateKey, compressed = compressed\<rparr>))))))))))))"

definition decryptRaw :: "bip38_env \<Rightarrow> buffer \<Rightarrow> string \<Rightarrow> IDecryptResult traced" where
  "decryptRaw env buffer passphrase =
     (if length buffer \<noteq> 39 then throws (Bip38LengthError 39 (length buffer))
      else
        andThen (readUInt8 buffer 0) (\<lambda>prefix.
        if prefix \<noteq> 0x01 then throws (Bip38PrefixError 0x01 prefix)
        else
          andThen (readUInt8 buffer 1) (\<lambda>type.
          if type = 0x43 then decryptECMult env buffer passphrase
          else if type \<noteq> 0x42 then throws (Bip38TypeError 0x42 type)
          else
            andThen (readUInt8 buffer 2) (\<lambda>flagByte.
            let compressed = (flagByte = 0xe0) in
            if \<not> compressed \<and> flagByte \<noteq> 0xc0 then throws (Bip38CompressionError 0xc0 flagByte)
            else
              let salt = slice buffer 3 7 in
              andThen (invoke (ScryptSync (Str passphrase) salt 64 SCRYPT_PARAMS)
                         (scryptSync env (Str passphrase) salt 64 SCRYPT_PARAMS)) (\<lambda>scryptBuf.
              let derivedHalf1 = slice scryptBuf 0 32;
                  derivedHalf2 = slice scryptBuf 32 64;
                  privKeyBuf = slice buffer 7 (7 + 32)
              in
              andThen (invoke (Decipheriv ''aes-256-ecb'' derivedHalf2 NULL privKeyBuf)
                         (aes_decipher env ''aes-256-ecb'' derivedHalf2 NULL privKeyBuf))
                (\<lambda>plainText.
              andThen (invoke (Xor derivedHalf1 plainText)
                         (xor_buffers env derivedHalf1 plainText)) (\<lambda>privateKey.
              andThen (getAddressPrivate env privateKey compressed) (\<lambda>address.
              andThen (invoke (Hash256 (Str address)) (hash256 env (Str address))) (\<lambda>h.
              let checksum = slice h 0 4 in
              if salt \<noteq> checksum then throws AssertionError
              else returns \<lparr>privateKey = privateKey, compressed = compressed\<rparr>)))))))))"

definition decrypt :: "bip38_env \<Rightarrow> string \<Rightarrow> string \<Rightarrow> IDecryptResult traced" where
  "decrypt env bip38 passphrase =
     andThen (invoke (DecodeCheck bip38) (decodeCheck env bip38)) (\<lambda>decoded.
     case decoded of
       None \<Rightarrow> throws JsTypeError
     | Some buffer \<Rightarrow> decryptRaw env buffer passphrase)"

text \<open>
  \<open>verify\<close>: the \<open>try\<close> covers the decoding only; whatever \<open>decodeCheck\<close> throws is
  caught and answered with \<open>false\<close>.
\<close>

definition verify :: "bip38_env \<Rightarrow> string \<Rightarrow> bool traced" where
  "verify env bip38 =
     (case invoke (DecodeCheck bip38) (decodeCheck env bip38) of
        (Inl e, t) \<Rightarrow> (Inr False, t)
      | (Inr decoded, t) \<Rightarrow>
          andThen (Inr decoded, t) (\<lambda>decoded.
          case decoded of
            None \<Rightarrow> returns False
          | Some decoded \<Rightarrow>
              if length decoded \<noteq> 39 then returns False
              else
                andThen (readUInt8 decoded 0) (\<lambda>prefix.
                if prefix \<noteq> 0x01 then returns False
                else
                  andThen (readUInt8 decoded 1) (\<lambda>type.
                  andThen (readUInt8 decoded 2) (\<lambda>flag.
                  if type = 0x42 then
                    (if flag \<noteq> 0xc0 \<and> flag \<noteq> 0xe0 then returns False else returns True)
                  else if type = 0x43 then
                    (if js_and flag (NOT 0x24) \<noteq> 0 then returns False else returns True)
                  else returns False)))))"

section \<open>Transfer handler (version two): bootstrap\<close>

text \<open>
  Source: \<^verbatim>\<open>packages/core-transactions/src/handlers/two/transfer.ts\<close>.
  \<^verbatim>\<open>
  public async bootstrap(): Promise<void> {
      const transactions = await this.transactionRepository.findReceivedTransactions();
      for (const transaction of transactions) {
          const wallet = this.walletRepository.findByAddress(transaction.recipientId);
          wallet.balance = wallet.balance.plus(transaction.amount);
      }
  }
  \<close>
  A wallet is a mutable object owned by the wallet repository; the handler reads and
  writes its \<open>balance\<close> only. Balances and amounts are arbitrary-precision integers
  (\<open>BigNumber\<close>), hence \<open>int\<close>. The kind-specific attributes are kept abstract.
\<close>

record 'a wallet =
  address :: string
  balance :: int
  nonce :: int
  attributes :: 'a

text \<open>The rows returned by \<open>findReceivedTransactions\<close>; the loop reads these two fields.\<close>

record received_transaction =
  recipientId :: string
  amount :: int

text \<open>
  Modelled from the spec: the wallet repository (its implementation is not part of the
  sources at hand) owns the wallets and hands out references to them;
  \<open>findByAddress\<close> resolves an address to the wallet object that is then mutated in
  place. The repository is an explicit store from wallet references \<open>'r\<close> to wallet
  values, and \<open>findByAddress\<close> is a parameter from addresses to references, so that two
  addresses resolving to one wallet object are not excluded.
\<close>

type_synonym ('r, 'a) wallet_store = "'r \<Rightarrow> 'a wallet"

text \<open>One iteration of the loop body.\<close>

definition bootstrap_step ::
  "(string \<Rightarrow> 'r) \<Rightarrow> ('r, 'a) wallet_store \<Rightarrow> received_transaction \<Rightarrow> ('r, 'a) wallet_store" where
  "bootstrap_step findByAddress store transaction =
     (let wallet = findByAddress (recipientId transaction)
      in store(wallet := (store wallet)\<lparr>balance := balance (store wallet) + amount transaction\<rparr>))"

text \<open>The \<open>for ... of\<close> loop over the rows, in order.\<close>

fun bootstrap_loop ::
  "(string \<Rightarrow> 'r) \<Rightarrow> received_transaction list \<Rightarrow> ('r, 'a) wallet_store \<Rightarrow> ('r, 'a) wallet_store" where
  "bootstrap_loop findByAddress [] store = store"
| "bootstrap_loop findByAddress (transaction # transactions) store =
     bootstrap_loop findByAddress transactions (bootstrap_step findByAddress store transaction)"

text \<open>
  \<open>bootstrap\<close>: \<open>findReceivedTransactions\<close> is the list the transaction repository
  returns; the result is the store after the loop.
\<close>

definition bootstrap ::
  "(string \<Rightarrow> 'r) \<Rightarrow> received_transaction list \<Rightarrow> ('r, 'a) wallet_store \<Rightarrow> ('r, 'a) wallet_store" where
  "bootstrap findByAddress findReceivedTransactions store =
     bootstrap_loop findByAddress findReceivedTransactions store"

text \<open>The total of the amounts of the rows whose recipient resolves to wallet \<open>w\<close>.\<close>

definition received_sum :: "(string \<Rightarrow> 'r) \<Rightarrow> received_transaction list \<Rightarrow> 'r \<Rightarrow> int" where
  "received_sum findByAddress transactions w =
     sum_list (map amount (filter (\<lambda>t. findByAddress (recipientId t) = w) transactions))"

section \<open>Auxiliary notions for stating the properties\<close>

text \<open>
  The first four bytes of \<open>hash256\<close> of the address of a key, as both \<open>encryptRaw\<close>
  (the salt) and \<open>decryptRaw\<close> (the checksum) compute them; \<open>None\<close> when a
  collaborator throws on the way.
\<close>

definition address_checksum :: "bip38_env \<Rightarrow> buffer \<Rightarrow> bool \<Rightarrow> buffer option" where
  "address_checksum env k c =
     (case fst (getAddressPrivate env k c) of
        Inl e \<Rightarrow> None
      | Inr a \<Rightarrow>
          (case hash256 env (Str a) of
             Inl msg \<Rightarrow> None
           | Inr h \<Rightarrow> Some (slice h 0 4)))"

text \<open>The \<open>scryptSync\<close> calls of a trace, in order.\<close>

fun is_scrypt :: "call \<Rightarrow> bool" where
  "is_scrypt (ScryptSync secret salt keylen ps) = True"
| "is_scrypt other = False"

definition scrypt_calls :: "call list \<Rightarrow> call list" where
  "scrypt_calls t = filter is_scrypt t"


text \<open>The outcome is a value, or an error that a collaborator threw.\<close>

definition collab_only :: "'a traced \<Rightarrow> bool" where
  "collab_only m =
     (case fst m of Inl e \<Rightarrow> (\<exists>msg. e = CollaboratorError msg) | Inr x \<Rightarrow> True)"

text \<open>
  Modelled from the spec: the collaborators that are missing from the sources, as
  sections 4.1 to 4.3 of the specification describe them. Base58Check encodes every
  payload and decoding gives the payload back; \<open>hash256\<close> and \<open>hash160\<close> return 32 and
  20 bytes; \<open>scrypt\<close> is a pure function that returns \<open>outputLength\<close> bytes and reads
  a string secret as its UTF-8 bytes; \<open>xor\<close> is the bytewise exclusive or of buffers of
  equal length; AES-256-ECB without padding maps a 16-byte-aligned buffer to one of the
  same length, and decrypting under the same 32-byte key gives the plaintext back.
\<close>

definition collaborators_ok :: "bip38_env \<Rightarrow> bool" where
  "collaborators_ok env \<longleftrightarrow>
     (\<forall>b. \<exists>s. encodeCheck env b = Inr s \<and> decodeCheck env s = Inr (Some b)) \<and>
     (\<forall>x. \<exists>h. hash256 env x = Inr h \<and> length h = 32) \<and>
     (\<forall>x. \<exists>h. hash160 env x = Inr h \<and> length h = 20) \<and>
     (\<forall>secret salt n ps. \<exists>out. scryptSync env secret salt n ps = Inr out \<and> length out = n) \<and>
     (\<forall>s salt n ps.
        scryptSync env (Str s) salt n ps = scryptSync env (Buf (buffer_from_utf8 s)) salt n ps) \<and>
     (\<forall>a b. length a = length b \<longrightarrow> xor_buffers env a b = Inr (map2 (XOR) a b)) \<and>
     (\<forall>k x. length k = 32 \<and> 16 dvd length x \<longrightarrow>
        (\<exists>y. aes_cipher env ''aes-256-ecb'' k [] x = Inr y \<and> length y = length x \<and>
             aes_decipher env ''aes-256-ecb'' k [] y = Inr x))"

text \<open>Every collaborator that \<open>decryptECMult\<close> calls returns, whatever it is given.\<close>

definition ecmult_collaborators_return :: "bip38_env \<Rightarrow> bool" where
  "ecmult_collaborators_return env \<longleftrightarrow>
     (\<forall>secret salt n ps. \<exists>out. scryptSync env secret salt n ps = Inr out) \<and>
     (\<forall>x. \<exists>h. hash256 env x = Inr h) \<and>
     (\<forall>k c. \<exists>hex. fromPrivateKeyWithAlgorithm env k c = Inr hex) \<and>
     (\<forall>alg k iv d. \<exists>z. aes_decipher env alg k iv d = Inr z) \<and>
     (\<forall>a b. \<exists>z. xor_buffers env a b = Inr z) \<and>
     (\<forall>a b. \<exists>z. privateKeyTweakMul env a b = Inr z)"

section \<open>A small instance of the collaborators\<close>

text \<open>
  An executable stand-in for the collaborators, on which the properties below are
  exercised at concrete inputs. It keeps the shapes (output lengths, inverses, string and
  buffer secrets treated alike) and replaces the cryptography by byte sums: a hash is the
  sum of the bytes of its input, repeated; the cipher adds the sum of the key bytes.
\<close>

definition toy_fingerprint :: "binary_like \<Rightarrow> byte" where
  "toy_fingerprint x = (case x of Str s \<Rightarrow> sum_list (buffer_from_utf8 s) | Buf b \<Rightarrow> sum_list b)"

definition hex_char :: "nat \<Rightarrow> char" where
  "hex_char n = (if n < 10 then char_of (48 + n) else char_of (87 + n))"

definition toy_hex :: "buffer \<Rightarrow> string" where
  "toy_hex b = concat (map (\<lambda>w. [hex_char (unat w div 16), hex_char (unat w mod 16)]) b)"

definition toy_string :: "buffer \<Rightarrow> string" where
  "toy_string b = map (\<lambda>w. char_of (unat w)) b"

definition toy_env :: bip38_env where
  "toy_env =
     \<lparr>scryptSync = (\<lambda>secret salt n ps.
         Inr (replicate n (toy_fingerprint secret + sum_list salt + of_nat (param_N ps)))),
      xor_buffers = (\<lambda>a b. Inr (map2 (XOR) a b)),
      aes_cipher = (\<lambda>alg k iv d. Inr (map (\<lambda>w. w + sum_list k) d)),
      aes_decipher = (\<lambda>alg k iv d. Inr (map (\<lambda>w. w - sum_list k) d)),
      privateKeyTweakMul = (\<lambda>a b. Inr (map2 (*) a b)),
      fromPrivateKeyWithAlgorithm = (\<lambda>k c. Inr (toy_hex ((if c then 2 else 4) # k))),
      hash256 = (\<lambda>x. Inr (replicate 32 (toy_fingerprint x))),
      hash160 = (\<lambda>x. Inr (replicate 20 (toy_fingerprint x))),
      encodeCheck = (\<lambda>b. Inr (toy_string b)),
      decodeCheck = (\<lambda>s. Inr (Some (buffer_from_utf8 s))),
      uninitialized = (\<lambda>i. 0xAA)\<rparr>"

text \<open>
  The same instance with a key derivation that, like an elliptic-curve library, rejects
  the zero scalar.
\<close>

definition strict_env :: bip38_env where
  "strict_env =
     toy_env\<lparr>fromPrivateKeyWithAlgorithm :=
       (\<lambda>k c. if k = replicate 32 0 then Inl ''Private key is invalid''
              else Inr (toy_hex ((if c then 2 else 4) # k)))\<rparr>"

text \<open>A wallet store for exercising \<open>bootstrap\<close>: references are the addresses.\<close>

definition toy_store :: "(string, unit) wallet_store" where
  "toy_store a = \<lparr>address = a, balance = 10, nonce = 3, attributes = ()\<rparr>"

definition toy_rows :: "received_transaction list" where
  "toy_rows = [\<lparr>recipientId = ''A'', amount = 5\<rparr>, \<lparr>recipientId = ''B'', amount = 7\<rparr>,
               \<lparr>recipientId = ''A'', amount = 1\<rparr>]"

section \<open>The trace monad\<close>

text \<open>
  Outcome and trace of a sequence are read off componentwise: the outcome of
  \<open>andThen m f\<close> is that of \<open>f\<close> unless \<open>m\<close> failed, and its trace is the trace of
  \<open>m\<close> followed by that of \<open>f\<close>.
\<close>

lemma fst_andThen: "fst (andThen m f) = (case fst m of Inl e \<Rightarrow> Inl e | Inr x \<Rightarrow> fst (f x))"
  by (cases m) (auto simp: andThen_def split: sum.splits prod.splits)

lemma snd_andThen: "snd (andThen m f) = snd m @ (case fst m of Inl e \<Rightarrow> [] | Inr x \<Rightarrow> snd (f x))"
  by (cases m) (auto simp: andThen_def split: sum.splits prod.splits)

lemma andThen_returns [simp]: "andThen (returns x) f = f x"
  by (simp add: returns_def andThen_def)

lemma andThen_throws [simp]: "andThen (throws e) f = throws e"
  by (simp add: throws_def andThen_def)

lemma fst_invoke: "fst (invoke c r) = (case r of Inl m \<Rightarrow> Inl (CollaboratorError m) | Inr x \<Rightarrow> Inr x)"
  by (simp add: invoke_def split: sum.splits)

lemma snd_invoke [simp]: "snd (invoke c r) = [c]"
  by (simp add: invoke_def split: sum.splits)

lemma fst_returns [simp]: "fst (returns x) = Inr x" by (simp add: returns_def)

lemma snd_returns [simp]: "snd (returns x) = []" by (simp add: returns_def)

lemma fst_throws [simp]: "fst (throws x) = Inl x" by (simp add: throws_def)

lemma snd_throws [simp]: "snd (throws x) = []" by (simp add: throws_def)

text \<open>Three properties that are preserved by sequencing.\<close>

lemma collab_only_andThen:
  "collab_only m \<Longrightarrow> (\<And>x. fst m = Inr x \<Longrightarrow> collab_only (f x)) \<Longrightarrow>
   collab_only (andThen m f)"
  by (auto simp: collab_only_def fst_andThen split: sum.splits)

lemma collab_only_invoke [simp]: "collab_only (invoke c r)"
  by (auto simp: collab_only_def fst_invoke split: sum.splits)

lemma collab_only_returns [simp]: "collab_only (returns r)"
  by (auto simp: collab_only_def split: sum.splits)

lemma succeeds_andThen:
  "\<exists>x. fst m = Inr x \<Longrightarrow> (\<And>x. \<exists>y. fst (f x) = Inr y) \<Longrightarrow> \<exists>y. fst (andThen m f) = Inr y"
  by (auto simp: fst_andThen)

lemma succeeds_invoke: "\<exists>x. r = Inr x \<Longrightarrow> \<exists>x. fst (invoke c r) = Inr x"
  by (auto simp: fst_invoke)

lemma filter_trace_andThen:
  "filter Q (snd m) = [] \<Longrightarrow> (\<And>x. filter Q (snd (f x)) = []) \<Longrightarrow>
   filter Q (snd (andThen m f)) = []"
  by (auto simp: snd_andThen split: sum.splits)


lemma scrypt_calls_Nil [simp]: "scrypt_calls [] = []"
  by (simp add: scrypt_calls_def)

lemma scrypt_calls_Cons [simp]:
  "scrypt_calls (c # t) = (if is_scrypt c then c # scrypt_calls t else scrypt_calls t)"
  by (simp add: scrypt_calls_def)

lemma scrypt_calls_append [simp]:
  "scrypt_calls (t @ u) = scrypt_calls t @ scrypt_calls u"
  by (simp add: scrypt_calls_def)

lemma scrypt_calls_andThen:
  "scrypt_calls (snd (andThen m f)) =
     scrypt_calls (snd m) @ (case fst m of Inl e \<Rightarrow> [] | Inr x \<Rightarrow> scrypt_calls (snd (f x)))"
  by (simp add: scrypt_calls_def snd_andThen split: sum.splits)

lemma scrypt_calls_none:
  "filter is_scrypt (snd m) = [] \<Longrightarrow> scrypt_calls (snd m) = []"
  by (simp add: scrypt_calls_def)

lemma scrypt_calls_invoke [simp]:
  "scrypt_calls (snd (invoke c r)) = (if is_scrypt c then [c] else [])"
  by (simp add: scrypt_calls_def)

lemma scrypt_calls_returns [simp]: "scrypt_calls (snd (returns x)) = []"
  by (simp add: scrypt_calls_def)

lemma scrypt_calls_throws [simp]: "scrypt_calls (snd (throws x)) = []"
  by (simp add: scrypt_calls_def)

section \<open>Buffers and bytes\<close>

lemma length_allocUnsafe [simp]: "length (allocUnsafe env n) = n"
  by (simp add: allocUnsafe_def)

lemma length_copy [simp]: "length (copy src tgt i) = length tgt"
  by (simp add: copy_def Let_def)

lemma length_alloc [simp]: "length (alloc n) = n" by (simp add: alloc_def)

lemma readUInt8_ok [simp]: "i < length b \<Longrightarrow> readUInt8 b i = returns (b ! i)"
  by (simp add: readUInt8_def)

lemma writeUInt8_ok [simp]: "i < length b \<Longrightarrow> writeUInt8 b v i = returns (b[i := v])"
  by (simp add: writeUInt8_def)

lemma slice_0 [simp]: "slice b 0 n = take n b" by (simp add: slice_def)

lemma length_slice: "length (slice b i j) = min (j - i) (length b - i)" by (simp add: slice_def)

lemma nth_copy_before:
  "i < off \<Longrightarrow> i < length tgt \<Longrightarrow> copy src tgt off ! i = tgt ! i"
  by (simp add: copy_def Let_def nth_append)

text \<open>
  The 39 bytes that \<open>encryptRaw\<close> assembles, whatever \<open>allocUnsafe\<close> handed out, and the
  21 bytes of the address payload.
\<close>

lemma copy_layout:
  assumes "length salt = 4" "length ct = 32" "length r = 39"
  shows "copy ct (copy salt (r[0 := a, Suc 0 := b, 2 := c]) 3) 7 = [a, b, c] @ salt @ ct"
proof -
  obtain r0 r1 r2 rest where r: "r = r0 # r1 # r2 # rest" and lr: "length rest = 36"
    using assms(3) by (cases r; cases "tl r"; cases "tl (tl r)") auto
  show ?thesis using assms(1,2) lr by (simp add: r copy_def)
qed

lemma payload_layout:
  assumes "length h = 20"
  shows "copy h ((alloc 21)[0 := 0]) (Suc 0) = 0 # h"
proof -
  have "(alloc 21)[0 := 0] = 0 # replicate 20 0"
    by (simp add: alloc_def numeral_eq_Suc)
  then show ?thesis using assms by (simp add: copy_def)
qed

lemma layout_parts:
  assumes "length salt = 4" "length ct = 32"
  shows "length ([a, b, c] @ salt @ ct) = 39"
    "([a, b, c] @ salt @ ct) ! 0 = a" "([a, b, c] @ salt @ ct) ! Suc 0 = b" "([a, b, c] @ salt @ ct) ! 2 = c"
    "slice ([a, b, c] @ salt @ ct) 3 7 = salt" "slice ([a, b, c] @ salt @ ct) 7 39 = ct"
  using assms by (simp_all add: slice_def nth_append)

lemma map2_xor_cancel: "length a = length b \<Longrightarrow> map2 (XOR) a (map2 (XOR) a b) = (b :: byte list)"
proof (induction a arbitrary: b)
  case Nil then show ?case by simp
next
  case (Cons x xs)
  then obtain y ys where "b = y # ys" by (cases b) auto
  with Cons show ?case by (simp add: xor.left_commute xor.assoc[symmetric])
qed

text \<open>
  The 32-bit tests of the source on a flag byte, read on the byte: \<open>(flag & 0x24) = flag\<close>
  and \<open>(flag & ~0x24) = 0\<close> both say that no bit outside \<open>0x24\<close> is set.
\<close>

lemma ucast_and_byte: "(ucast (x::byte) :: 32 word) AND m = ucast (x AND ucast m)"
  by (rule bit_word_eqI) (auto simp add: bit_simps dest: bit_imp_le_length)

lemma ucast_byte_inj: "(ucast (x::byte) :: 32 word) = ucast y \<longleftrightarrow> x = y"
proof
  assume "(ucast x :: 32 word) = ucast y"
  then have "(ucast (ucast x :: 32 word) :: byte) = ucast (ucast y :: 32 word)"
    by simp
  then show "x = y"
    by (simp add: ucast_up_ucast_id is_up)
qed simp

lemma ucast_byte_eq_0: "(ucast (x::byte) :: 32 word) = 0 \<longleftrightarrow> x = 0"
  using ucast_byte_inj [of x 0] by simp

lemma js_and_keep: "js_and x 0x24 = ucast x \<longleftrightarrow> x AND 0x24 = x"
  unfolding js_and_def ucast_and_byte ucast_byte_inj by simp

lemma and_not_0x24: "(x::byte) AND NOT 0x24 = 0 \<longleftrightarrow> x AND 0x24 = x"
proof
  assume a: "x AND NOT 0x24 = 0"
  have "x = x AND (0x24 OR NOT 0x24)" by simp
  also have "\<dots> = (x AND 0x24) OR (x AND NOT 0x24)" by (rule bit.conj_disj_distrib)
  finally show "x AND 0x24 = x" using a by simp
next
  assume a: "x AND 0x24 = x"
  have "(x AND 0x24) AND NOT 0x24 = 0" by (simp add: and.assoc)
  with a show "x AND NOT 0x24 = 0" by simp
qed

lemma js_and_clear: "js_and x (NOT 0x24) = 0 \<longleftrightarrow> x AND 0x24 = x"
proof -
  have e: "(ucast (NOT 0x24 :: 32 word) :: byte) = NOT 0x24"
    by simp
  have "js_and x (NOT 0x24) = 0 \<longleftrightarrow> x AND NOT 0x24 = 0"
    unfolding js_and_def ucast_and_byte ucast_byte_eq_0 e by (rule refl)
  then show ?thesis by (simp only: and_not_0x24)
qed

lemma js_and_bit5: "js_and x 0x20 \<noteq> 0 \<longleftrightarrow> bit x 5"
proof -
  have "x AND 0x20 = 0 \<longleftrightarrow> \<not> bit x 5" using and_exp_eq_0_iff_not_bit [of x 5] by simp
  then show ?thesis
  unfolding js_and_def ucast_and_byte ucast_byte_eq_0 by simp
qed

lemma js_and_bit2: "js_and x 0x04 \<noteq> 0 \<longleftrightarrow> bit x 2"
proof -
  have "x AND 0x04 = 0 \<longleftrightarrow> \<not> bit x 2" using and_exp_eq_0_iff_not_bit [of x 2] by simp
  then show ?thesis
  unfolding js_and_def ucast_and_byte ucast_byte_eq_0 by simp
qed

section \<open>Public key and address\<close>

lemma fst_getPublicKey:
  "fst (getPublicKey env k c) =
     (case fromPrivateKeyWithAlgorithm env k c of
        Inl m \<Rightarrow> Inl (CollaboratorError m) | Inr hex \<Rightarrow> Inr (buffer_from_hex hex))"
  by (simp add: getPublicKey_def fst_andThen fst_invoke split: sum.splits)

lemma snd_getPublicKey [simp]:
  "snd (getPublicKey env k c) = [FromPrivateKeyWithAlgorithm k c]"
  by (simp add: getPublicKey_def snd_andThen fst_invoke split: sum.splits)

lemma collab_only_getPublicKey [simp]: "collab_only (getPublicKey env k c)"
  unfolding getPublicKey_def by (intro collab_only_andThen) simp_all

lemma collab_only_getAddressPrivate [simp]: "collab_only (getAddressPrivate env k c)"
  unfolding getAddressPrivate_def by (simp, intro collab_only_andThen) simp_all

lemma scrypt_calls_getPublicKey [simp]: "scrypt_calls (snd (getPublicKey env k c)) = []"
  by (simp add: scrypt_calls_def)

lemma getAddressPrivate_no_scrypt [simp]:
  "scrypt_calls (snd (getAddressPrivate env k c)) = []"
  unfolding getAddressPrivate_def getPublicKey_def
  by (intro scrypt_calls_none filter_trace_andThen) (simp_all add: writeUInt8_def)

lemma getAddressPrivate_value:
  assumes "fromPrivateKeyWithAlgorithm env K c = Inr hex"
    and "hash160 env (Buf (buffer_from_hex hex)) = Inr h160"
    and "encodeCheck env (copy h160 ((alloc 21)[0 := 0]) 1) = Inr addr"
  shows "fst (getAddressPrivate env K c) = Inr addr"
  using assms by (simp add: getAddressPrivate_def getPublicKey_def fst_andThen fst_invoke)

section \<open>The small instance\<close>

lemma hex_digit_hex_char: "n < 16 \<Longrightarrow> hex_digit (hex_char n) = Some n"
  by (auto simp add: hex_digit_def hex_char_def Let_def)

lemma buffer_from_hex_toy_hex [simp]: "buffer_from_hex (toy_hex b) = b"
proof (induction b)
  case Nil
  show ?case by (simp add: toy_hex_def)
next
  case (Cons w ws)
  have "unat w < 256" using unsigned_less [of w] by simp
  then have d: "unat w div 16 < 16" by simp
  have m: "unat w mod 16 < 16" by simp
  have "(of_nat (16 * (unat w div 16) + unat w mod 16) :: byte) = w"
    by simp
  with Cons show ?case
    using hex_digit_hex_char [OF d] hex_digit_hex_char [OF m]
    by (simp add: toy_hex_def)
qed

lemma buffer_from_utf8_toy_string [simp]: "buffer_from_utf8 (toy_string b) = b"
proof -
  have "(of_nat (of_char (char_of (unat w)) :: nat) :: byte) = w" for w :: byte
  proof -
    have "unat w < 256" using unsigned_less [of w] by simp
    then show ?thesis by simp
  qed
  then show ?thesis
    by (simp add: buffer_from_utf8_def toy_string_def comp_def)
qed

lemma toy_ok: "collaborators_ok toy_env"
  unfolding collaborators_ok_def
  by (simp add: toy_env_def toy_fingerprint_def comp_def)

lemma strict_ok: "collaborators_ok strict_env"
  using toy_ok unfolding collaborators_ok_def strict_env_def by simp

lemma toy_returns: "ecmult_collaborators_return toy_env"
  by (simp add: ecmult_collaborators_return_def toy_env_def)

lemma toy_decode_inverse:
  "encodeCheck toy_env b = Inr s \<Longrightarrow> decodeCheck toy_env s = Inr (Some b)"
  by (auto simp add: toy_env_def)

lemma toy_address:
  "fst (getAddressPrivate toy_env (replicate 32 k) True) =
     Inr (toy_string (0 # replicate 20 (2 + 32 * k)))"
proof (rule getAddressPrivate_value)
  show "fromPrivateKeyWithAlgorithm toy_env (replicate 32 k) True =
          Inr (toy_hex (2 # replicate 32 k))"
    by (simp add: toy_env_def)
  show "hash160 toy_env (Buf (buffer_from_hex (toy_hex (2 # replicate 32 k)))) =
          Inr (replicate 20 (2 + 32 * k))"
    by (simp add: toy_env_def toy_fingerprint_def sum_list_replicate)
  show "encodeCheck toy_env (copy (replicate 20 (2 + 32 * k)) ((alloc 21)[0 := 0]) 1) =
          Inr (toy_string (0 # replicate 20 (2 + 32 * k)))"
    by (simp add: toy_env_def payload_layout)
qed

lemma toy_hash_address:
  "hash256 toy_env (Str (toy_string (0 # replicate 20 v))) = Inr (replicate 32 (20 * v))"
  by (simp add: toy_env_def toy_fingerprint_def sum_list_replicate)

section \<open>encrypt\<close>

lemma collab_only_encryptRaw: "length K = 32 \<Longrightarrow> collab_only (encryptRaw env K c P)"
  unfolding encryptRaw_def Let_def
  by (simp split del: if_split, intro collab_only_andThen) simp_all

lemma collab_only_encrypt: "length K = 32 \<Longrightarrow> collab_only (encrypt env K c P)"
  unfolding encrypt_def by (intro collab_only_andThen) (simp_all add: collab_only_encryptRaw)

lemma encryptRaw_value:
  assumes "length K = 32"
    and "fst (getAddressPrivate env K c) = Inr addr"
    and "hash256 env (Str addr) = Inr h" and "4 \<le> length h"
    and "scryptSync env (Buf (buffer_from_utf8 P)) (slice h 0 4) 64 SCRYPT_PARAMS = Inr sb"
    and "xor_buffers env (slice sb 0 32) K = Inr x"
    and "aes_cipher env ''aes-256-ecb'' (slice sb 32 64) [] x = Inr ct" and "length ct = 32"
  shows "fst (encryptRaw env K c P) = Inr ([0x01, 0x42, if c then 0xe0 else 0xc0] @ slice h 0 4 @ ct)"
  using assms
  by (simp add: encryptRaw_def Let_def fst_andThen fst_invoke NULL_def alloc_def copy_layout split del: if_split)

lemma encrypt_value:
  assumes "fst (encryptRaw env K c P) = Inr raw" "encodeCheck env raw = Inr s"
  shows "fst (encrypt env K c P) = Inr s"
  using assms by (simp add: encrypt_def fst_andThen fst_invoke)

lemma encryptRaw_header:
  assumes "fst (encryptRaw env K c P) = Inr raw"
  shows "length raw = 39 \<and> raw ! 0 = 0x01 \<and> raw ! 1 = 0x42 \<and>
         raw ! 2 = (if c then 0xe0 else 0xc0)"
proof -
  have "length K = 32"
    using assms by (auto simp: encryptRaw_def split: if_splits)
  then show ?thesis
    using assms
    by (auto simp add: encryptRaw_def Let_def fst_andThen nth_copy_before
        split: sum.splits)
qed

lemma encrypt_inversion:
  assumes "fst (encrypt env K c P) = Inr s"
  obtains raw where "fst (encryptRaw env K c P) = Inr raw" "encodeCheck env raw = Inr s"
  using assms
  by (auto simp add: encrypt_def fst_andThen fst_invoke split: sum.splits)

lemma encrypt_key_failure:
  assumes "length K = 32" "fromPrivateKeyWithAlgorithm env K c = Inl m"
  shows "fst (encrypt env K c P) = Inl (CollaboratorError m)"
  using assms
  by (simp add: encrypt_def encryptRaw_def getAddressPrivate_def getPublicKey_def
      fst_andThen fst_invoke)

lemma encrypt_under_contract:
  assumes ok: "collaborators_ok env" and len: "length K = 32"
    and key: "fromPrivateKeyWithAlgorithm env K c = Inr hex"
  obtains addr h sb ct raw s where
    "fst (getAddressPrivate env K c) = Inr addr"
    "hash256 env (Str addr) = Inr h" "length h = 32"
    "scryptSync env (Buf (buffer_from_utf8 P)) (slice h 0 4) 64 SCRYPT_PARAMS = Inr sb"
    "length sb = 64"
    "aes_cipher env ''aes-256-ecb'' (slice sb 32 64) [] (map2 (XOR) (slice sb 0 32) K) = Inr ct"
    "length ct = 32"
    "aes_decipher env ''aes-256-ecb'' (slice sb 32 64) [] ct = Inr (map2 (XOR) (slice sb 0 32) K)"
    "raw = [0x01, 0x42, if c then 0xe0 else 0xc0] @ slice h 0 4 @ ct"
    "fst (encryptRaw env K c P) = Inr raw"
    "encodeCheck env raw = Inr s" "decodeCheck env s = Inr (Some raw)"
    "fst (encrypt env K c P) = Inr s"
proof -
  from ok obtain h160 where h160: "hash160 env (Buf (buffer_from_hex hex)) = Inr h160"
    and "length h160 = 20"
    unfolding collaborators_ok_def by blast
  from ok obtain addr where "encodeCheck env (copy h160 ((alloc 21)[0 := 0]) 1) = Inr addr"
    unfolding collaborators_ok_def by blast
  with key h160 have addr: "fst (getAddressPrivate env K c) = Inr addr"
    by (rule getAddressPrivate_value)
  from ok obtain h where h: "hash256 env (Str addr) = Inr h" and lh: "length h = 32"
    unfolding collaborators_ok_def by blast
  from ok obtain sb
    where sb: "scryptSync env (Buf (buffer_from_utf8 P)) (slice h 0 4) 64 SCRYPT_PARAMS = Inr sb"
      and lsb: "length sb = 64"
    unfolding collaborators_ok_def by blast
  have l1: "length (slice sb 0 32) = 32" and l2: "length (slice sb 32 64) = 32"
    using lsb by (simp_all add: slice_def)
  from ok l1 len
  have x: "xor_buffers env (slice sb 0 32) K = Inr (map2 (XOR) (slice sb 0 32) K)"
    unfolding collaborators_ok_def by simp
  have lx: "length (map2 (XOR) (slice sb 0 32) K) = 32"
    using l1 len by simp
  from ok l2 lx obtain ct
    where ct: "aes_cipher env ''aes-256-ecb'' (slice sb 32 64) []
                 (map2 (XOR) (slice sb 0 32) K) = Inr ct"
      and lct: "length ct = 32"
      and dec: "aes_decipher env ''aes-256-ecb'' (slice sb 32 64) [] ct =
                 Inr (map2 (XOR) (slice sb 0 32) K)"
    unfolding collaborators_ok_def
    by (metis dvd_refl dvd_triv_left mult_2 numeral_Bit0 dvd_add)
  define raw where "raw = [0x01, 0x42, if c then 0xe0 else 0xc0] @ slice h 0 4 @ ct"
  have raw: "fst (encryptRaw env K c P) = Inr raw"
    unfolding raw_def using len addr h _ sb x ct lct
    by (rule encryptRaw_value) (simp add: lh)
  from ok obtain s where s: "encodeCheck env raw = Inr s" and d: "decodeCheck env s = Inr (Some raw)"
    unfolding collaborators_ok_def by blast
  from raw s have "fst (encrypt env K c P) = Inr s"
    by (rule encrypt_value)
  with addr h lh sb lsb ct lct dec raw_def raw s d show thesis
    by (rule that)
qed

lemma toy_encrypt:
  "fst (encrypt toy_env (replicate 32 5) True ''a'') =
     Inr (toy_string ([0x01, 0x42, 0xe0] @ replicate 4 168 @ replicate 32 36))"
proof -
  have "fst (encryptRaw toy_env (replicate 32 5) True ''a'') =
          Inr ([0x01, 0x42, if True then 0xe0 else 0xc0] @
               slice (replicate 32 (20 * (2 + 32 * 5))) 0 4 @ replicate 32 36)"
  proof (rule encryptRaw_value)
    show "fst (getAddressPrivate toy_env (replicate 32 5) True) =
            Inr (toy_string (0 # replicate 20 (2 + 32 * 5)))"
      by (rule toy_address)
    show "hash256 toy_env (Str (toy_string (0 # replicate 20 (2 + 32 * 5)))) =
            Inr (replicate 32 (20 * (2 + 32 * 5)))"
      by (rule toy_hash_address)
    show "scryptSync toy_env (Buf (buffer_from_utf8 ''a''))
            (slice (replicate 32 (20 * (2 + 32 * 5))) 0 4) 64 SCRYPT_PARAMS =
          Inr (replicate 64 1)"
      by (simp add: toy_env_def toy_fingerprint_def buffer_from_utf8_def SCRYPT_PARAMS_def
          sum_list_replicate)
    show "xor_buffers toy_env (slice (replicate 64 1) 0 32) (replicate 32 5) =
            Inr (replicate 32 4)"
      by (simp add: toy_env_def zip_replicate)
    show "aes_cipher toy_env ''aes-256-ecb'' (slice (replicate 64 1) 32 64) [] (replicate 32 4) =
            Inr (replicate 32 36)"
      by (simp add: toy_env_def slice_def sum_list_replicate)
  qed simp_all
  then have "fst (encryptRaw toy_env (replicate 32 5) True ''a'') =
          Inr ([0x01, 0x42, 0xe0] @ replicate 4 168 @ replicate 32 36)"
    by simp
  then show ?thesis
    by (rule encrypt_value) (simp add: toy_env_def)
qed

text \<open>
  C5. \<open>encrypt\<close> fails with \<open>PrivateKeyLengthError(32, length)\<close> exactly when the
  private key is not 32 bytes long. When it is not, the error is the outcome of
  \<open>encrypt\<close> itself (nothing stands in for it) and the trace is empty: no collaborator,
  hence no derivation, has been called. When it is 32 bytes long, whatever \<open>encrypt\<close>
  does, it does not fail with that error.
\<close>

theorem encrypt_private_key_length:
  "(length K \<noteq> 32 \<longrightarrow>
      encrypt env K c P = (Inl (PrivateKeyLengthError 32 (length K)), [])) \<and>
   (length K = 32 \<longrightarrow>
      (\<forall>a b. fst (encrypt env K c P) \<noteq> Inl (PrivateKeyLengthError a b)))"
proof (intro conjI impI allI)
  assume "length K \<noteq> 32"
  then show "encrypt env K c P = (Inl (PrivateKeyLengthError 32 (length K)), [])"
    by (simp add: encrypt_def encryptRaw_def) (simp add: throws_def)
next
  fix a b
  assume "length K = 32"
  from collab_only_encrypt [OF this, of env c P]
  show "fst (encrypt env K c P) \<noteq> Inl (PrivateKeyLengthError a b)"
    by (auto simp: collab_only_def)
qed

theorem encrypt_private_key_length_witness:
  "encrypt toy_env [1, 2, 3] True ''a'' = (Inl (PrivateKeyLengthError 32 3), []) \<and>
   fst (encrypt toy_env (replicate 32 5) True ''a'') \<noteq> Inl (PrivateKeyLengthError 32 32)"
  using encrypt_private_key_length [of "[1, 2, 3]" toy_env True "''a''"]
    encrypt_private_key_length [of "replicate 32 5" toy_env True "''a''"]
  by simp

section \<open>decryptRaw: the order of validation\<close>

lemma decryptRaw_dispatch:
  "(length buffer \<noteq> 39 \<longrightarrow>
      decryptRaw env buffer P = (Inl (Bip38LengthError 39 (length buffer)), [])) \<and>
   (length buffer = 39 \<and> buffer ! 0 \<noteq> 0x01 \<longrightarrow>
      decryptRaw env buffer P = (Inl (Bip38PrefixError 0x01 (buffer ! 0)), [])) \<and>
   (length buffer = 39 \<and> buffer ! 0 = 0x01 \<and> buffer ! 1 = 0x43 \<longrightarrow>
      decryptRaw env buffer P = decryptECMult env buffer P) \<and>
   (length buffer = 39 \<and> buffer ! 0 = 0x01 \<and> buffer ! 1 \<noteq> 0x43 \<and> buffer ! 1 \<noteq> 0x42 \<longrightarrow>
      decryptRaw env buffer P = (Inl (Bip38TypeError 0x42 (buffer ! 1)), [])) \<and>
   (length buffer = 39 \<and> buffer ! 0 = 0x01 \<and> buffer ! 1 = 0x42 \<and>
    buffer ! 2 \<noteq> 0xe0 \<and> buffer ! 2 \<noteq> 0xc0 \<longrightarrow>
      decryptRaw env buffer P = (Inl (Bip38CompressionError 0xc0 (buffer ! 2)), []))"
  by (simp add: decryptRaw_def throws_def)

lemma decryptRaw_direct:
  "length buffer = 39 \<and> buffer ! 0 = 0x01 \<and> buffer ! 1 = 0x42 \<and>
    (buffer ! 2 = 0xe0 \<or> buffer ! 2 = 0xc0) \<longrightarrow>
      (\<exists>rest. snd (decryptRaw env buffer P) =
          ScryptSync (Str P) (slice buffer 3 7) 64 SCRYPT_PARAMS # rest) \<and>
      (\<forall>r. fst (decryptRaw env buffer P) = Inr r \<longrightarrow> compressed r = (buffer ! 2 = 0xe0))"
  by (auto simp add: decryptRaw_def Let_def snd_andThen fst_andThen split: sum.splits if_splits)

text \<open>
  C4. \<open>decryptRaw\<close> checks in this order: a length other than 39 gives
  \<open>Bip38LengthError\<close>; then a byte 0 other than \<open>0x01\<close> gives \<open>Bip38PrefixError\<close>; then
  type \<open>0x43\<close> hands over to \<open>decryptECMult\<close>; any type other than \<open>0x43\<close> and
  \<open>0x42\<close> gives \<open>Bip38TypeError\<close>; on type \<open>0x42\<close> a flag that is neither \<open>0xE0\<close> nor
  \<open>0xC0\<close> gives \<open>Bip38CompressionError\<close>. Each of these failures comes with an empty
  trace: no key derivation and no decryption has been called. Otherwise the direct path
  starts with the scrypt stretch of the passphrase, and every result it returns has
  \<open>compressed = (flag = 0xE0)\<close>.
\<close>

theorem decryptRaw_validation_order:
  "(length buffer \<noteq> 39 \<longrightarrow>
      decryptRaw env buffer P = (Inl (Bip38LengthError 39 (length buffer)), [])) \<and>
   (length buffer = 39 \<and> buffer ! 0 \<noteq> 0x01 \<longrightarrow>
      decryptRaw env buffer P = (Inl (Bip38PrefixError 0x01 (buffer ! 0)), [])) \<and>
   (length buffer = 39 \<and> buffer ! 0 = 0x01 \<and> buffer ! 1 = 0x43 \<longrightarrow>
      decryptRaw env buffer P = decryptECMult env buffer P) \<and>
   (length buffer = 39 \<and> buffer ! 0 = 0x01 \<and> buffer ! 1 \<noteq> 0x43 \<and> buffer ! 1 \<noteq> 0x42 \<longrightarrow>
      decryptRaw env buffer P = (Inl (Bip38TypeError 0x42 (buffer ! 1)), [])) \<and>
   (length buffer = 39 \<and> buffer ! 0 = 0x01 \<and> buffer ! 1 = 0x42 \<and>
    buffer ! 2 \<noteq> 0xe0 \<and> buffer ! 2 \<noteq> 0xc0 \<longrightarrow>
      decryptRaw env buffer P = (Inl (Bip38CompressionError 0xc0 (buffer ! 2)), [])) \<and>
   (length buffer = 39 \<and> buffer ! 0 = 0x01 \<and> buffer ! 1 = 0x42 \<and>
    (buffer ! 2 = 0xe0 \<or> buffer ! 2 = 0xc0) \<longrightarrow>
      (\<exists>rest. snd (decryptRaw env buffer P) =
          ScryptSync (Str P) (slice buffer 3 7) 64 SCRYPT_PARAMS # rest) \<and>
      (\<forall>r. fst (decryptRaw env buffer P) = Inr r \<longrightarrow> compressed r = (buffer ! 2 = 0xe0)))"
  using decryptRaw_dispatch [of buffer env P] decryptRaw_direct [of buffer env P]
  by blast

theorem decryptRaw_validation_order_witness:
  "decryptRaw toy_env [] ''a'' = (Inl (Bip38LengthError 39 0), []) \<and>
   decryptRaw toy_env (replicate 39 0) ''a'' = (Inl (Bip38PrefixError 0x01 0), []) \<and>
   decryptRaw toy_env ([0x01, 0x07] @ replicate 37 0) ''a'' = (Inl (Bip38TypeError 0x42 0x07), []) \<and>
   decryptRaw toy_env ([0x01, 0x42, 0x00] @ replicate 36 0) ''a'' =
     (Inl (Bip38CompressionError 0xc0 0x00), []) \<and>
   decryptRaw toy_env ([0x01, 0x43, 0x24] @ replicate 36 7) ''a'' =
     decryptECMult toy_env ([0x01, 0x43, 0x24] @ replicate 36 7) ''a'' \<and>
   (\<exists>rest. snd (decryptRaw toy_env ([0x01, 0x42, 0xe0] @ replicate 4 168 @ replicate 32 36) ''a'') =
      ScryptSync (Str ''a'') (replicate 4 168) 64 SCRYPT_PARAMS # rest)"
  using decryptRaw_validation_order [of "[]" toy_env "''a''"]
    decryptRaw_validation_order [of "replicate 39 0" toy_env "''a''"]
    decryptRaw_validation_order [of "[0x01, 0x07] @ replicate 37 0" toy_env "''a''"]
    decryptRaw_validation_order [of "[0x01, 0x42, 0x00] @ replicate 36 0" toy_env "''a''"]
    decryptRaw_validation_order [of "[0x01, 0x43, 0x24] @ replicate 36 7" toy_env "''a''"]
    decryptRaw_validation_order
      [of "[0x01, 0x42, 0xe0] @ replicate 4 168 @ replicate 32 36" toy_env "''a''"]
  by (simp add: slice_def)

section \<open>The direct path: round trip and wrong passphrase\<close>

lemma decryptRaw_direct_value:
  assumes "length buffer = 39" "buffer ! 0 = 0x01" "buffer ! 1 = 0x42"
    and "buffer ! 2 = (if c then 0xe0 else 0xc0)"
    and "scryptSync env (Str P) (slice buffer 3 7) 64 SCRYPT_PARAMS = Inr sb"
    and "aes_decipher env ''aes-256-ecb'' (slice sb 32 64) [] (slice buffer 7 39) = Inr pt"
    and "xor_buffers env (slice sb 0 32) pt = Inr k"
    and "fst (getAddressPrivate env k c) = Inr addr"
    and "hash256 env (Str addr) = Inr h"
  shows "fst (decryptRaw env buffer P) =
           (if slice buffer 3 7 = slice h 0 4 then Inr \<lparr>privateKey = k, compressed = c\<rparr>
            else Inl AssertionError)"
  using assms
  by (cases c) (simp_all add: decryptRaw_def Let_def fst_andThen fst_invoke NULL_def alloc_def)

lemma decrypt_value:
  assumes "decodeCheck env s = Inr (Some buffer)"
  shows "fst (decrypt env s P) = fst (decryptRaw env buffer P)"
  using assms by (simp add: decrypt_def fst_andThen fst_invoke)

lemma decryptRaw_direct_post:
  assumes "length buffer = 39" "buffer ! 0 = 0x01" "buffer ! 1 = 0x42"
    and "buffer ! 2 = 0xe0 \<or> buffer ! 2 = 0xc0"
  shows "case fst (decryptRaw env buffer P) of
           Inl e \<Rightarrow> e = AssertionError \<or> (\<exists>m. e = CollaboratorError m)
         | Inr r \<Rightarrow> compressed r = (buffer ! 2 = 0xe0) \<and>
                    address_checksum env (privateKey r) (compressed r) = Some (slice buffer 3 7)"
proof -
  have ca: "\<exists>m. e = CollaboratorError m" if "fst (getAddressPrivate env k c) = Inl e" for k c e
    using collab_only_getAddressPrivate [of env k c] that by (simp add: collab_only_def)
  show ?thesis
    using assms
    by (auto simp add: decryptRaw_def Let_def fst_andThen fst_invoke address_checksum_def
        split: sum.splits dest: ca)
qed

lemma toy_decrypt_other:
  "fst (decrypt toy_env (toy_string ([0x01, 0x42, 0xe0] @ replicate 4 168 @ replicate 32 36)) ''c'') =
     Inr \<lparr>privateKey = replicate 32 199, compressed = True\<rparr>"
proof -
  let ?raw = "[0x01, 0x42, 0xe0] @ replicate 4 168 @ replicate 32 (36 :: byte)"
  note parts = layout_parts [of "replicate 4 168" "replicate 32 36" "0x01" "0x42" "0xe0", simplified]
  have "fst (decryptRaw toy_env ?raw ''c'') =
          (if slice ?raw 3 7 = slice (replicate 32 (20 * (2 + 32 * 199))) 0 4
           then Inr \<lparr>privateKey = replicate 32 199, compressed = True\<rparr>
           else Inl AssertionError)"
  proof (rule decryptRaw_direct_value)
    show "scryptSync toy_env (Str ''c'') (slice ?raw 3 7) 64 SCRYPT_PARAMS = Inr (replicate 64 3)"
      by (simp add: toy_env_def toy_fingerprint_def buffer_from_utf8_def SCRYPT_PARAMS_def
          sum_list_replicate slice_def)
    show "aes_decipher toy_env ''aes-256-ecb'' (slice (replicate 64 3) 32 64) [] (slice ?raw 7 39) =
            Inr (replicate 32 196)"
      by (simp add: toy_env_def slice_def sum_list_replicate)
    show "xor_buffers toy_env (slice (replicate 64 3) 0 32) (replicate 32 196) =
            Inr (replicate 32 199)"
      by (simp add: toy_env_def zip_replicate)
    show "fst (getAddressPrivate toy_env (replicate 32 199) True) =
            Inr (toy_string (0 # replicate 20 (2 + 32 * 199)))"
      by (rule toy_address)
    show "hash256 toy_env (Str (toy_string (0 # replicate 20 (2 + 32 * 199)))) =
            Inr (replicate 32 (20 * (2 + 32 * 199)))"
      by (rule toy_hash_address)
  qed simp_all
  then have "fst (decryptRaw toy_env ?raw ''c'') =
      Inr \<lparr>privateKey = replicate 32 199, compressed = True\<rparr>"
    by (simp add: slice_def)
  moreover have "decodeCheck toy_env (toy_string ?raw) = Inr (Some ?raw)"
    by (simp add: toy_env_def)
  ultimately show ?thesis
    by (simp add: decrypt_value)
qed

text \<open>
  C1, as the code has it. Let the collaborators meet their contract and let the key
  derivation return the public key of the 32-byte key \<open>K\<close> (\<open>encryptRaw\<close> checks the
  length only and calls the derivation unguarded). Then, for every compression flag \<open>c\<close>
  and every passphrase \<open>P\<close>, \<open>encrypt\<close> returns a string, and \<open>decrypt\<close> of that string
  under \<open>P\<close> returns exactly \<open>{privateKey: K, compressed: c}\<close>.
\<close>

theorem bip38_round_trip:
  assumes "collaborators_ok env" and "length K = 32"
    and "fromPrivateKeyWithAlgorithm env K c = Inr hex"
  shows "\<exists>s. fst (encrypt env K c P) = Inr s \<and>
             fst (decrypt env s P) = Inr \<lparr>privateKey = K, compressed = c\<rparr>"
proof -
  from assms obtain addr h sb ct raw s where
    addr: "fst (getAddressPrivate env K c) = Inr addr" and
    h: "hash256 env (Str addr) = Inr h" and lh: "length h = 32" and
    sb: "scryptSync env (Buf (buffer_from_utf8 P)) (slice h 0 4) 64 SCRYPT_PARAMS = Inr sb" and
    lsb: "length sb = 64" and
    lct: "length ct = 32" and
    dec: "aes_decipher env ''aes-256-ecb'' (slice sb 32 64) [] ct =
            Inr (map2 (XOR) (slice sb 0 32) K)" and
    raw: "raw = [0x01, 0x42, if c then 0xe0 else 0xc0] @ slice h 0 4 @ ct" and
    d: "decodeCheck env s = Inr (Some raw)" and
    enc: "fst (encrypt env K c P) = Inr s"
    by (rule encrypt_under_contract [where P = P])
  have ls: "length (slice h 0 4) = 4" using lh by simp
  note parts = layout_parts [OF ls lct, of "0x01" "0x42" "if c then 0xe0 else 0xc0", folded raw]
  have l1: "length (slice sb 0 32) = 32" using lsb by simp
  from assms(1)
  have sb': "scryptSync env (Str P) (slice raw 3 7) 64 SCRYPT_PARAMS = Inr sb"
    unfolding collaborators_ok_def using sb parts(5) by simp
  from assms(1) l1 assms(2)
  have x: "xor_buffers env (slice sb 0 32) (map2 (XOR) (slice sb 0 32) K) = Inr K"
    unfolding collaborators_ok_def by (simp add: map2_xor_cancel)
  have "fst (decryptRaw env raw P) =
          (if slice raw 3 7 = slice h 0 4 then Inr \<lparr>privateKey = K, compressed = c\<rparr>
           else Inl AssertionError)"
    using parts(1,2) _ parts(4) sb' _ x addr h
  proof (rule decryptRaw_direct_value)
    show "raw ! 1 = 0x42" using parts(3) by simp
    show "aes_decipher env ''aes-256-ecb'' (slice sb 32 64) [] (slice raw 7 39) =
            Inr (map2 (XOR) (slice sb 0 32) K)"
      using dec parts(6) by simp
  qed
  then have "fst (decryptRaw env raw P) = Inr \<lparr>privateKey = K, compressed = c\<rparr>"
    using parts(5) by simp
  with decrypt_value [OF d, of P] enc show ?thesis by simp
qed

theorem bip38_round_trip_witness:
  "fst (decrypt toy_env (toy_string ([0x01, 0x42, 0xe0] @ replicate 4 168 @ replicate 32 36)) ''a'') =
     Inr \<lparr>privateKey = replicate 32 5, compressed = True\<rparr>"
proof -
  have l: "length (replicate 32 (5 :: byte)) = 32" by simp
  have k: "fromPrivateKeyWithAlgorithm toy_env (replicate 32 5) True =
             Inr (toy_hex (2 # replicate 32 5))"
    by (simp add: toy_env_def)
  from bip38_round_trip [OF toy_ok l k, of "''a''"] toy_encrypt
  show ?thesis by auto
qed

text \<open>
  C1 as stated fails: not every 32-byte key round-trips without error. On the instance
  whose key derivation rejects the zero scalar (it meets the contract all the same),
  \<open>encrypt\<close> of 32 zero bytes passes the length check and fails with the error the
  derivation threw.
\<close>

theorem bip38_round_trip_counterexample:
  "length (replicate 32 (0 :: byte)) = 32 \<and>
   fst (encrypt strict_env (replicate 32 0) True ''a'') =
     Inl (CollaboratorError ''Private key is invalid'')"
proof -
  have "fromPrivateKeyWithAlgorithm strict_env (replicate 32 0) True =
          Inl ''Private key is invalid''"
    by (simp add: strict_env_def)
  then have "fst (encrypt strict_env (replicate 32 0) True ''a'') =
      Inl (CollaboratorError ''Private key is invalid'')"
    by (intro encrypt_key_failure) simp_all
  then show ?thesis by simp
qed

text \<open>
  C3, as the code has it. Let the collaborators meet their contract and let \<open>encrypt\<close>
  of the 32-byte key \<open>K\<close> under \<open>P1\<close> return \<open>s\<close>. Then \<open>decrypt\<close> of \<open>s\<close> under
  any passphrase \<open>P2\<close> either fails, with the assertion failure of the salt check or with
  an error a collaborator threw, or returns a result with the compression flag of the
  encryption and a key whose address has the same four-byte checksum as the address of
  \<open>K\<close>, which is the stored salt. A key whose checksum differs from the salt is never
  returned; a key other than \<open>K\<close> whose checksum agrees with it is.
\<close>

theorem wrong_passphrase_checksum:
  assumes "collaborators_ok env" and "length K = 32"
    and "fst (encrypt env K c P1) = Inr s"
  shows "case fst (decrypt env s P2) of
           Inl e \<Rightarrow> e = AssertionError \<or> (\<exists>m. e = CollaboratorError m)
         | Inr r \<Rightarrow> compressed r = c \<and>
                    address_checksum env (privateKey r) c = address_checksum env K c \<and>
                    address_checksum env K c \<noteq> None"
proof (cases "fromPrivateKeyWithAlgorithm env K c")
  case (Inl m)
  with assms(2) have "fst (encrypt env K c P1) = Inl (CollaboratorError m)"
    by (rule encrypt_key_failure)
  with assms(3) show ?thesis by simp
next
  case (Inr hex)
  with assms(1,2) obtain addr h ct raw s' where
    addr: "fst (getAddressPrivate env K c) = Inr addr" and
    h: "hash256 env (Str addr) = Inr h" and lh: "length h = 32" and
    lct: "length ct = 32" and
    raw: "raw = [0x01, 0x42, if c then 0xe0 else 0xc0] @ slice h 0 4 @ ct" and
    d: "decodeCheck env s' = Inr (Some raw)" and
    enc: "fst (encrypt env K c P1) = Inr s'"
    by (rule encrypt_under_contract [where P = P1])
  from enc assms(3) have s: "s' = s" by simp
  have ls: "length (slice h 0 4) = 4" using lh by simp
  note parts = layout_parts [OF ls lct, of "0x01" "0x42" "if c then 0xe0 else 0xc0", folded raw]
  have flag: "raw ! 2 = 0xe0 \<or> raw ! 2 = 0xc0" and c: "(raw ! 2 = 0xe0) = c"
    using parts(4) by (cases c; simp)+
  have t: "raw ! 1 = 0x42" using parts(3) by simp
  have K: "address_checksum env K c = Some (slice raw 3 7)"
    using addr h parts(5) by (simp add: address_checksum_def)
  from decryptRaw_direct_post [OF parts(1,2) t flag, of env P2]
  show ?thesis
    using decrypt_value [OF d [unfolded s], of P2] K c
    by (auto split: sum.splits)
qed

theorem wrong_passphrase_checksum_witness:
  "case fst (decrypt toy_env
              (toy_string ([0x01, 0x42, 0xe0] @ replicate 4 168 @ replicate 32 36)) ''b'') of
     Inl e \<Rightarrow> e = AssertionError \<or> (\<exists>m. e = CollaboratorError m)
   | Inr r \<Rightarrow> compressed r = True \<and>
              address_checksum toy_env (privateKey r) True =
                address_checksum toy_env (replicate 32 5) True \<and>
              address_checksum toy_env (replicate 32 5) True \<noteq> None"
  by (rule wrong_passphrase_checksum [OF toy_ok _ toy_encrypt]) simp

text \<open>
  C3 as stated fails: on the small instance (which meets the contract), the
  key of 32 bytes \<open>5\<close> encrypted under \<open>''a''\<close> and decrypted under \<open>''c''\<close>, two
  passphrases with different scrypt stretches, passes the salt check and comes back as
  the key of 32 bytes \<open>199\<close>, whose address has the same four-byte checksum.
\<close>

theorem wrong_passphrase_counterexample:
  "''a'' \<noteq> ''c'' \<and>
   scryptSync toy_env (Str ''a'') (replicate 4 168) 64 SCRYPT_PARAMS \<noteq>
     scryptSync toy_env (Str ''c'') (replicate 4 168) 64 SCRYPT_PARAMS \<and>
   fst (encrypt toy_env (replicate 32 5) True ''a'') =
     Inr (toy_string ([0x01, 0x42, 0xe0] @ replicate 4 168 @ replicate 32 36)) \<and>
   fst (decrypt toy_env (toy_string ([0x01, 0x42, 0xe0] @ replicate 4 168 @ replicate 32 36)) ''c'') =
     Inr \<lparr>privateKey = replicate 32 199, compressed = True\<rparr> \<and>
   replicate 32 (199 :: byte) \<noteq> replicate 32 5"
proof -
  have "scryptSync toy_env (Str ''a'') (replicate 4 168) 64 SCRYPT_PARAMS \<noteq>
     scryptSync toy_env (Str ''c'') (replicate 4 168) 64 SCRYPT_PARAMS"
    by (simp add: toy_env_def toy_fingerprint_def buffer_from_utf8_def)
  then show ?thesis
    using toy_encrypt toy_decrypt_other by simp
qed

section \<open>verify\<close>

lemma verify_trace: "snd (verify env s) = [DecodeCheck s]"
  by (simp add: verify_def invoke_def snd_andThen split: sum.splits option.splits)

text \<open>
  C2. \<open>verify\<close> calls \<open>decodeCheck\<close> and nothing else, so the Base58 checksum is the
  only cryptographic check. It answers \<open>true\<close> exactly when the decoding returns a
  payload of 39 bytes whose byte 0 is \<open>0x01\<close> and whose type and flag bytes are either
  \<open>0x42\<close> with \<open>0xC0\<close> or \<open>0xE0\<close>, or \<open>0x43\<close> with \<open>flag & ~0x24 = 0\<close>; in every
  other case (decoding throws or returns nothing, another length, prefix, type or flag) it
  answers \<open>false\<close>. In particular it answers \<open>true\<close> on every string that \<open>encrypt\<close>
  returns, provided \<open>decodeCheck\<close> gives back the payload that was encoded.
\<close>

theorem verify_structural:
  "snd (verify env s) = [DecodeCheck s] \<and>
   fst (verify env s) =
     Inr (case decodeCheck env s of
            Inl msg \<Rightarrow> False
          | Inr None \<Rightarrow> False
          | Inr (Some d) \<Rightarrow>
              length d = 39 \<and> d ! 0 = 0x01 \<and>
              (d ! 1 = 0x42 \<and> (d ! 2 = 0xc0 \<or> d ! 2 = 0xe0) \<or>
               d ! 1 = 0x43 \<and> js_and (d ! 2) (NOT 0x24) = 0)) \<and>
   (fst (encrypt env K c P) = Inr s \<and>
    (\<forall>b. encodeCheck env b = Inr s \<longrightarrow> decodeCheck env s = Inr (Some b)) \<longrightarrow>
      fst (verify env s) = Inr True)"
proof (intro conjI impI)
  show "snd (verify env s) = [DecodeCheck s]"
    by (simp add: verify_def invoke_def snd_andThen split: sum.splits option.splits)
  show v: "fst (verify env s) =
     Inr (case decodeCheck env s of
            Inl msg \<Rightarrow> False
          | Inr None \<Rightarrow> False
          | Inr (Some d) \<Rightarrow>
              length d = 39 \<and> d ! 0 = 0x01 \<and>
              (d ! 1 = 0x42 \<and> (d ! 2 = 0xc0 \<or> d ! 2 = 0xe0) \<or>
               d ! 1 = 0x43 \<and> js_and (d ! 2) (NOT 0x24) = 0))"
    by (simp add: verify_def invoke_def fst_andThen split: sum.splits option.splits)
  assume a: "fst (encrypt env K c P) = Inr s \<and>
    (\<forall>b. encodeCheck env b = Inr s \<longrightarrow> decodeCheck env s = Inr (Some b))"
  then obtain raw where raw: "fst (encryptRaw env K c P) = Inr raw"
    and "encodeCheck env raw = Inr s"
    by (blast elim: encrypt_inversion)
  with a have "decodeCheck env s = Inr (Some raw)" by blast
  with encryptRaw_header [OF raw] show "fst (verify env s) = Inr True"
    unfolding v by (cases c) simp_all
qed

theorem verify_structural_witness:
  "fst (verify toy_env (toy_string ([0x01, 0x42, 0xe0] @ replicate 4 168 @ replicate 32 36))) =
     Inr True \<and>
   snd (verify toy_env (toy_string ([0x01, 0x42, 0xe0] @ replicate 4 168 @ replicate 32 36))) =
     [DecodeCheck (toy_string ([0x01, 0x42, 0xe0] @ replicate 4 168 @ replicate 32 36))] \<and>
   fst (verify toy_env (toy_string [0x01, 0x42, 0xe0])) = Inr False"
  using verify_structural [of toy_env
      "toy_string ([0x01, 0x42, 0xe0] @ replicate 4 168 @ replicate 32 36)" "replicate 32 5" True "''a''"]
    verify_structural [of toy_env "toy_string [0x01, 0x42, 0xe0]" "replicate 32 5" True "''a''"]
    toy_encrypt toy_decode_inverse
  by (auto simp add: toy_env_def)

section \<open>The EC-multiply path\<close>

lemma decryptECMult_assert:
  assumes "3 \<le> length buffer" "js_and (buffer ! 2) 0x24 \<noteq> ucast (buffer ! 2)"
  shows "decryptECMult env buffer P = (Inl AssertionError, [])"
  using assms by (simp add: decryptECMult_def Let_def nth_drop numeral_2_eq_2) (simp add: throws_def)

lemma decryptECMult_first_call:
  assumes "3 \<le> length buffer" "js_and (buffer ! 2) 0x24 = ucast (buffer ! 2)"
  shows "\<exists>rest. snd (decryptECMult env buffer P) =
      ScryptSync (Str P)
        (if js_and (buffer ! 2) 0x04 \<noteq> 0 then slice (slice (drop 1 buffer) 6 14) 0 4
         else slice (drop 1 buffer) 6 14) 32 SCRYPT_PARAMS # rest"
  using assms by (simp add: decryptECMult_def Let_def nth_drop snd_andThen numeral_2_eq_2)

lemma decryptECMult_result:
  assumes "3 \<le> length buffer" "fst (decryptECMult env buffer P) = Inr r"
  shows "compressed r = (js_and (buffer ! 2) 0x20 \<noteq> 0) \<and>
    (\<exists>preFactor passFactor hashedSeed.
       scryptSync env (Str P)
         (if js_and (buffer ! 2) 0x04 \<noteq> 0 then slice (slice (drop 1 buffer) 6 14) 0 4
          else slice (drop 1 buffer) 6 14) 32 SCRYPT_PARAMS = Inr preFactor \<and>
       (if js_and (buffer ! 2) 0x04 \<noteq> 0
        then hash256 env (Buf (preFactor @ slice (drop 1 buffer) 6 14)) = Inr passFactor
        else passFactor = preFactor) \<and>
       FromPrivateKeyWithAlgorithm passFactor True \<in> set (snd (decryptECMult env buffer P)) \<and>
       privateKeyTweakMul env hashedSeed passFactor = Inr (privateKey r))"
  using assms
  by (simp add: decryptECMult_def Let_def nth_drop fst_andThen snd_andThen fst_invoke
      fst_getPublicKey numeral_2_eq_2 split: sum.splits if_splits) auto


lemma decryptECMult_returns:
  assumes "3 \<le> length buffer" "js_and (buffer ! 2) 0x24 = ucast (buffer ! 2)"
    and "ecmult_collaborators_return env"
  shows "\<exists>r. fst (decryptECMult env buffer P) = Inr r"
proof -
  from assms(3) have
    a: "\<And>secret salt n ps. \<exists>out. scryptSync env secret salt n ps = Inr out" and
    b: "\<And>x. \<exists>h. hash256 env x = Inr h" and
    c: "\<And>k c. \<exists>hex. fromPrivateKeyWithAlgorithm env k c = Inr hex" and
    d: "\<And>alg k iv d. \<exists>z. aes_decipher env alg k iv d = Inr z" and
    e: "\<And>a b. \<exists>z. xor_buffers env a b = Inr z" and
    f: "\<And>a b. \<exists>z. privateKeyTweakMul env a b = Inr z"
    unfolding ecmult_collaborators_return_def by blast+
  have g: "\<exists>pk. fst (getPublicKey env k c) = Inr pk" for k c
    using c [of k c] by (auto simp: fst_getPublicKey)
  show ?thesis
    using assms(1,2) unfolding decryptECMult_def Let_def
    by (simp add: nth_drop numeral_2_eq_2 split del: if_split,
        intro succeeds_andThen succeeds_invoke a b c d e f g)
      (auto intro: succeeds_invoke b)
qed


text \<open>
  C6. In \<open>decryptECMult\<close>, for a buffer long enough to hold the flag byte (index 2 of
  the undecapitated buffer), with \<open>hasLotSeq = ((flag & 0x04) \<noteq> 0)\<close>: a flag with
  \<open>(flag & 0x24) \<noteq> flag\<close> fails the assertion before any collaborator is called;
  otherwise the first call is the standard scrypt stretch of the passphrase, 32 bytes
  long, whose salt (\<open>ownerSalt\<close>) is the first 4 bytes of \<open>ownerEntropy\<close> when
  \<open>hasLotSeq\<close> and all of \<open>ownerEntropy\<close> otherwise (4 or 8 bytes on a 39-byte
  buffer); every result has \<open>compressed = ((flag & 0x20) \<noteq> 0)\<close>, and the pass factor
  from which the public key is derived and by which the hashed seed is multiplied is
  \<open>hash256(preFactor \<parallel> ownerEntropy)\<close> when \<open>hasLotSeq\<close> and \<open>preFactor\<close> otherwise.
\<close>

theorem decryptECMult_flag_semantics:
  assumes "3 \<le> length buffer"
  shows
    "let flag = buffer ! 2;
         ownerEntropy = slice (drop 1 buffer) 6 14;
         hasLotSeq = (js_and flag 0x04 \<noteq> 0);
         ownerSalt = (if hasLotSeq then slice ownerEntropy 0 4 else ownerEntropy)
     in
       (js_and flag 0x24 \<noteq> ucast flag \<longrightarrow>
          decryptECMult env buffer P = (Inl AssertionError, [])) \<and>
       (js_and flag 0x24 = ucast flag \<longrightarrow>
          (\<exists>rest. snd (decryptECMult env buffer P) =
             ScryptSync (Str P) ownerSalt 32 SCRYPT_PARAMS # rest)) \<and>
       (\<forall>r. fst (decryptECMult env buffer P) = Inr r \<longrightarrow>
          compressed r = (js_and flag 0x20 \<noteq> 0) \<and>
          (\<exists>preFactor passFactor hashedSeed.
             scryptSync env (Str P) ownerSalt 32 SCRYPT_PARAMS = Inr preFactor \<and>
             (if hasLotSeq then hash256 env (Buf (preFactor @ ownerEntropy)) = Inr passFactor
              else passFactor = preFactor) \<and>
             FromPrivateKeyWithAlgorithm passFactor True \<in> set (snd (decryptECMult env buffer P)) \<and>
             privateKeyTweakMul env hashedSeed passFactor = Inr (privateKey r))) \<and>
       (length buffer = 39 \<longrightarrow>
          length ownerEntropy = 8 \<and> length ownerSalt = (if hasLotSeq then 4 else 8))"
proof -
  have len: "length buffer = 39 \<Longrightarrow> length (slice (drop 1 buffer) 6 14) = 8"
    by (simp add: slice_def)
  show ?thesis
    unfolding Let_def
    using decryptECMult_assert [OF assms, of env P]
      decryptECMult_first_call [OF assms, of env P]
      decryptECMult_result [OF assms, of env P]
      len
    by (intro conjI impI allI) (simp_all add: slice_def)
qed

theorem decryptECMult_flag_semantics_witness:
  "decryptECMult toy_env ([0x01, 0x43, 0x01] @ replicate 36 7) ''a'' = (Inl AssertionError, []) \<and>
   (\<exists>rest. snd (decryptECMult toy_env ([0x01, 0x43, 0x24] @ replicate 36 7) ''a'') =
      ScryptSync (Str ''a'') (replicate 4 7) 32 SCRYPT_PARAMS # rest) \<and>
   (\<exists>r. fst (decryptECMult toy_env ([0x01, 0x43, 0x24] @ replicate 36 7) ''a'') = Inr r \<and>
        compressed r)"
proof -
  have j: "js_and 0x24 0x24 = 0x24" "js_and 0x24 0x04 = 0x04" "js_and 0x24 0x20 = 0x20"
    "js_and 0x01 0x24 = 0"
    by (simp_all add: js_and_def)
  have "\<exists>r. fst (decryptECMult toy_env ([0x01, 0x43, 0x24] @ replicate 36 7) ''a'') = Inr r"
    by (rule decryptECMult_returns [OF _ _ toy_returns]) (simp_all add: j)
  then show ?thesis
    using decryptECMult_flag_semantics [of "[0x01, 0x43, 0x01] @ replicate 36 7" toy_env "''a''"]
      decryptECMult_flag_semantics [of "[0x01, 0x43, 0x24] @ replicate 36 7" toy_env "''a''"]
    by (auto simp add: j Let_def slice_def)
qed







section \<open>The scrypt calls\<close>

lemma encryptRaw_scrypt_exact:
  "scrypt_calls (snd (encryptRaw env K c P)) =
     (if length K \<noteq> 32 then []
      else case fst (getAddressPrivate env K c) of
             Inl e \<Rightarrow> []
           | Inr addr \<Rightarrow>
               (case hash256 env (Str addr) of
                  Inl m \<Rightarrow> []
                | Inr h \<Rightarrow> [ScryptSync (Buf (buffer_from_utf8 P)) (slice h 0 4) 64 SCRYPT_PARAMS]))"
proof (cases "length K = 32")
  case False
  then show ?thesis by (simp add: encryptRaw_def)
next
  case True
  have tail: "(case r1 of Inl e \<Rightarrow> [] | Inr x \<Rightarrow>
                 (case r2 x of Inl e \<Rightarrow> ([] :: call list) | Inr y \<Rightarrow> [])) = []" for r1 :: "string + buffer" and r2 :: "buffer \<Rightarrow> string + buffer"
    by (simp split: sum.splits)
  from True show ?thesis
    by (simp add: encryptRaw_def Let_def scrypt_calls_andThen fst_invoke tail
        sum.case_distrib [of "case_sum f g" for f g]
        split del: if_split cong: sum.case_cong)
qed

lemma decryptRaw_scrypt_exact:
  assumes "length buffer = 39" "buffer ! 0 = 0x01" "buffer ! 1 = 0x42"
    "buffer ! 2 = 0xe0 \<or> buffer ! 2 = 0xc0"
  shows "scrypt_calls (snd (decryptRaw env buffer P)) =
     [ScryptSync (Str P) (slice buffer 3 7) 64 SCRYPT_PARAMS]"
  using assms
  by (auto simp add: decryptRaw_def Let_def scrypt_calls_andThen fst_invoke
      split: sum.splits)

lemma decryptECMult_scrypt_exact:
  "scrypt_calls (snd (decryptECMult env buffer P)) =
     (if length buffer < 3 \<or> js_and (buffer ! 2) 0x24 \<noteq> ucast (buffer ! 2) then []
      else
        ScryptSync (Str P)
          (if js_and (buffer ! 2) 0x04 \<noteq> 0 then slice (slice (drop 1 buffer) 6 14) 0 4
           else slice (drop 1 buffer) 6 14) 32 SCRYPT_PARAMS #
        (case scryptSync env (Str P)
               (if js_and (buffer ! 2) 0x04 \<noteq> 0 then slice (slice (drop 1 buffer) 6 14) 0 4
                else slice (drop 1 buffer) 6 14) 32 SCRYPT_PARAMS of
           Inl m \<Rightarrow> []
         | Inr preFactor \<Rightarrow>
             (case (if js_and (buffer ! 2) 0x04 \<noteq> 0
                    then hash256 env (Buf (preFactor @ slice (drop 1 buffer) 6 14))
                    else Inr preFactor) of
                Inl m \<Rightarrow> []
              | Inr passFactor \<Rightarrow>
                  (case fromPrivateKeyWithAlgorithm env passFactor True of
                     Inl m \<Rightarrow> []
                   | Inr hex \<Rightarrow>
                       [ScryptSync (Buf (buffer_from_hex hex))
                          (slice (drop 1 buffer) 2 6 @ slice (drop 1 buffer) 6 14) 64
                          LIGHT_PARAMS]))))"
proof (cases "length buffer < 3")
  case True
  then have "readUInt8 (drop 1 buffer) 1 = throws RangeError"
    unfolding readUInt8_def by auto
  with True show ?thesis
    by (simp add: decryptECMult_def Let_def)
next
  case False
  then show ?thesis
    by (auto simp add: decryptECMult_def Let_def nth_drop numeral_2_eq_2 scrypt_calls_andThen
        fst_invoke fst_getPublicKey split: sum.splits)
qed

lemma encrypt_scrypt_calls:
  "scrypt_calls (snd (encrypt env K c P)) = scrypt_calls (snd (encryptRaw env K c P))"
  by (simp add: encrypt_def scrypt_calls_andThen split: sum.splits)

lemma decrypt_scrypt_calls:
  "scrypt_calls (snd (decrypt env s P)) =
     (case decodeCheck env s of
        Inl m \<Rightarrow> []
      | Inr None \<Rightarrow> []
      | Inr (Some b) \<Rightarrow> scrypt_calls (snd (decryptRaw env b P)))"
  by (simp add: decrypt_def scrypt_calls_andThen fst_invoke split: sum.splits option.splits)

text \<open>
  C8. The scrypt calls and their parameter sets. The standard set is
  \<open>N = 16384, r = 8, p = 8\<close>, the light one \<open>N = 1024, r = 1, p = 1\<close>. \<open>encrypt\<close> makes at
  most one scrypt call: the passphrase stretch, 64 bytes, standard set. \<open>decryptRaw\<close>
  hands over to \<open>decryptECMult\<close> or makes at most one: the passphrase stretch with the
  stored salt, 64 bytes, standard set. \<open>decryptECMult\<close> makes at most two, in this order:
  the owner-salt stretch of the passphrase, 32 bytes, standard set, and the seed-pass
  stretch of the public key, 64 bytes, light set. \<open>decrypt\<close> adds none to those of
  \<open>decryptRaw\<close>, and \<open>verify\<close> makes none.
\<close>

theorem scrypt_parameter_sets:
  "SCRYPT_PARAMS = \<lparr>param_N = 16384, param_r = 8, param_p = 8\<rparr> \<and>
   LIGHT_PARAMS = \<lparr>param_N = 1024, param_r = 1, param_p = 1\<rparr> \<and>
   (scrypt_calls (snd (encrypt env K c P)) = [] \<or>
    (\<exists>salt. scrypt_calls (snd (encrypt env K c P)) =
       [ScryptSync (Buf (buffer_from_utf8 P)) salt 64 SCRYPT_PARAMS])) \<and>
   (decryptRaw env buffer P = decryptECMult env buffer P \<or>
    scrypt_calls (snd (decryptRaw env buffer P)) = [] \<or>
    scrypt_calls (snd (decryptRaw env buffer P)) =
       [ScryptSync (Str P) (slice buffer 3 7) 64 SCRYPT_PARAMS]) \<and>
   (scrypt_calls (snd (decryptECMult env buffer P)) = [] \<or>
    (\<exists>ownerSalt.
       scrypt_calls (snd (decryptECMult env buffer P)) =
         [ScryptSync (Str P) ownerSalt 32 SCRYPT_PARAMS] \<or>
       (\<exists>publicKey salt.
          scrypt_calls (snd (decryptECMult env buffer P)) =
            [ScryptSync (Str P) ownerSalt 32 SCRYPT_PARAMS,
             ScryptSync (Buf publicKey) salt 64 LIGHT_PARAMS]))) \<and>
   scrypt_calls (snd (decrypt env s P)) =
     (case decodeCheck env s of
        Inl m \<Rightarrow> []
      | Inr None \<Rightarrow> []
      | Inr (Some b) \<Rightarrow> scrypt_calls (snd (decryptRaw env b P))) \<and>
   scrypt_calls (snd (verify env s)) = []"
proof (intro conjI)
  show "SCRYPT_PARAMS = \<lparr>param_N = 16384, param_r = 8, param_p = 8\<rparr>"
    by (simp add: SCRYPT_PARAMS_def)
  show "LIGHT_PARAMS = \<lparr>param_N = 1024, param_r = 1, param_p = 1\<rparr>"
    by (simp add: LIGHT_PARAMS_def)
  show "scrypt_calls (snd (encrypt env K c P)) = [] \<or>
    (\<exists>salt. scrypt_calls (snd (encrypt env K c P)) =
       [ScryptSync (Buf (buffer_from_utf8 P)) salt 64 SCRYPT_PARAMS])"
    unfolding encrypt_scrypt_calls encryptRaw_scrypt_exact
    by (auto split: sum.splits)
  show "decryptRaw env buffer P = decryptECMult env buffer P \<or>
    scrypt_calls (snd (decryptRaw env buffer P)) = [] \<or>
    scrypt_calls (snd (decryptRaw env buffer P)) =
       [ScryptSync (Str P) (slice buffer 3 7) 64 SCRYPT_PARAMS]"
    using decryptRaw_dispatch [of buffer env P] decryptRaw_scrypt_exact [of buffer env P]
    by (cases "length buffer = 39"; cases "buffer ! 0 = 0x01"; cases "buffer ! 1 = 0x43";
        cases "buffer ! 1 = 0x42"; cases "buffer ! 2 = 0xe0"; cases "buffer ! 2 = 0xc0") auto
  show "scrypt_calls (snd (decryptECMult env buffer P)) = [] \<or>
    (\<exists>ownerSalt.
       scrypt_calls (snd (decryptECMult env buffer P)) =
         [ScryptSync (Str P) ownerSalt 32 SCRYPT_PARAMS] \<or>
       (\<exists>publicKey salt.
          scrypt_calls (snd (decryptECMult env buffer P)) =
            [ScryptSync (Str P) ownerSalt 32 SCRYPT_PARAMS,
             ScryptSync (Buf publicKey) salt 64 LIGHT_PARAMS]))"
    unfolding decryptECMult_scrypt_exact
    by (auto split: sum.splits)
  show "scrypt_calls (snd (decrypt env s P)) =
     (case decodeCheck env s of
        Inl m \<Rightarrow> []
      | Inr None \<Rightarrow> []
      | Inr (Some b) \<Rightarrow> scrypt_calls (snd (decryptRaw env b P)))"
    by (rule decrypt_scrypt_calls)
  show "scrypt_calls (snd (verify env s)) = []"
    using verify_trace [of env s] by simp
qed

section \<open>bootstrap\<close>

lemma bootstrap_loop_balance:
  "balance (bootstrap_loop f txs store w) = balance (store w) + received_sum f txs w"
proof (induction txs arbitrary: store)
  case Nil
  show ?case by (simp add: received_sum_def)
next
  case (Cons t txs)
  have step: "balance (bootstrap_step f store t w) =
      balance (store w) + (if f (recipientId t) = w then amount t else 0)"
    by (simp add: bootstrap_step_def Let_def)
  have split: "received_sum f (t # txs) w =
      (if f (recipientId t) = w then amount t else 0) + received_sum f txs w"
    by (simp add: received_sum_def)
  show ?case
    by (simp only: bootstrap_loop.simps Cons.IH step split)
qed

lemma bootstrap_step_frame:
  "address (bootstrap_step f store t w) = address (store w) \<and>
   nonce (bootstrap_step f store t w) = nonce (store w) \<and>
   attributes (bootstrap_step f store t w) = attributes (store w) \<and>
   wallet.more (bootstrap_step f store t w) = wallet.more (store w)"
  by (simp add: bootstrap_step_def Let_def)

lemma bootstrap_loop_frame:
  "address (bootstrap_loop f txs store w) = address (store w) \<and>
   nonce (bootstrap_loop f txs store w) = nonce (store w) \<and>
   attributes (bootstrap_loop f txs store w) = attributes (store w) \<and>
   wallet.more (bootstrap_loop f txs store w) = wallet.more (store w)"
proof (induction txs arbitrary: store)
  case Nil
  show ?case by simp
next
  case (Cons t txs)
  show ?case
    using Cons.IH [of "bootstrap_step f store t"] bootstrap_step_frame [of f store t w]
    by simp
qed

lemma bootstrap_loop_untouched:
  "w \<notin> f ` recipientId ` set txs \<Longrightarrow> bootstrap_loop f txs store w = store w"
proof (induction txs arbitrary: store)
  case Nil
  show ?case by simp
next
  case (Cons t txs)
  from Cons.prems have ne: "f (recipientId t) \<noteq> w" and rest: "w \<notin> f ` recipientId ` set txs"
    by auto
  have "bootstrap_step f store t w = store w"
    using ne by (simp add: bootstrap_step_def Let_def)
  with Cons.IH [OF rest, of "bootstrap_step f store t"] show ?case by simp
qed

text \<open>
  C9. One run of \<open>bootstrap\<close> over the received transactions raises the balance of every
  wallet by exactly the sum of the amounts of the transactions whose recipient resolves to
  that wallet (zero for a wallet that receives nothing); a second run over the store the
  first one left adds the same sum once more.
\<close>

theorem bootstrap_adds_received_sum:
  "balance (bootstrap f txs store w) = balance (store w) + received_sum f txs w \<and>
   balance (bootstrap f txs (bootstrap f txs store) w) =
     balance (store w) + 2 * received_sum f txs w"
proof
  show once: "balance (bootstrap f txs store w) = balance (store w) + received_sum f txs w"
    unfolding bootstrap_def by (rule bootstrap_loop_balance)
  have "balance (bootstrap f txs (bootstrap f txs store) w) =
          balance (bootstrap f txs store w) + received_sum f txs w"
    unfolding bootstrap_def by (rule bootstrap_loop_balance)
  with once show "balance (bootstrap f txs (bootstrap f txs store) w) =
      balance (store w) + 2 * received_sum f txs w"
    by simp
qed

text \<open>
  C10. \<open>bootstrap\<close> writes the balance field only: address, nonce, attributes and every
  further field of each wallet are as before, and a wallet to which no replayed
  transaction's recipient resolves (a sender that receives nothing, for one) is left
  exactly as it was.
\<close>

theorem bootstrap_frame:
  "address (bootstrap f txs store w) = address (store w) \<and>
   nonce (bootstrap f txs store w) = nonce (store w) \<and>
   attributes (bootstrap f txs store w) = attributes (store w) \<and>
   wallet.more (bootstrap f txs store w) = wallet.more (store w) \<and>
   (w \<notin> f ` recipientId ` set txs \<longrightarrow> bootstrap f txs store w = store w)"
  using bootstrap_loop_frame [of f txs store w] bootstrap_loop_untouched [of w f txs store]
  by (simp add: bootstrap_def)

theorem bootstrap_frame_witness:
  "bootstrap (\<lambda>a. a) toy_rows toy_store ''C'' = toy_store ''C'' \<and>
   nonce (bootstrap (\<lambda>a. a) toy_rows toy_store ''A'') = 3 \<and>
   balance (bootstrap (\<lambda>a. a) toy_rows toy_store ''A'') = 16"
  using bootstrap_frame [of "\<lambda>a. a" toy_rows toy_store "''C''"]
    bootstrap_frame [of "\<lambda>a. a" toy_rows toy_store "''A''"]
    bootstrap_loop_balance [of "\<lambda>a. a" toy_rows toy_store "''A''"]
  by (simp add: toy_rows_def toy_store_def bootstrap_def received_sum_def)

end
